theory Spec2Isabelle
  imports Complex_Main
begin

section \<open>Strings\<close>

text \<open>
  Source strings are modelled as \<^typ>\<open>string\<close>, one \<^typ>\<open>char\<close> for each character
  (for such strings the length and the iteration over characters of the sources agree).
  The helpers below are the string
  methods the sources call: \<^verbatim>\<open>startsWith\<close>, \<^verbatim>\<open>endsWith\<close>, \<^verbatim>\<open>String.prototype.includes\<close>,
  \<^verbatim>\<open>split('/').pop()\<close> and \<^verbatim>\<open>toLowerCase\<close>.
\<close>

definition startsWith :: "string \<Rightarrow> string \<Rightarrow> bool" where
  "startsWith s p = (take (length p) s = p)"

definition endsWith :: "string \<Rightarrow> string \<Rightarrow> bool" where
  "endsWith s p = (length p \<le> length s \<and> drop (length s - length p) s = p)"

fun str_includes :: "string \<Rightarrow> string \<Rightarrow> bool" where
  "str_includes [] p = (p = [])"
| "str_includes (c # cs) p = (startsWith (c # cs) p \<or> str_includes cs p)"

fun split_on :: "char \<Rightarrow> string \<Rightarrow> string list" where
  "split_on sep [] = [[]]"
| "split_on sep (c # cs) =
     (if c = sep then [] # split_on sep cs
      else (case split_on sep cs of
              [] \<Rightarrow> [[c]]
            | w # ws \<Rightarrow> (c # w) # ws))"

definition toLowerCaseChar :: "char \<Rightarrow> char" where
  "toLowerCaseChar c =
     (if c \<in> set ''ABCDEFGHIJKLMNOPQRSTUVWXYZ''
      then char_of (of_char c + (32::nat)) else c)"

definition toLowerCase :: "string \<Rightarrow> string" where
  "toLowerCase s = map toLowerCaseChar s"

section \<open>types.ts\<close>

datatype severity = Critical | Warning

text \<open>
  The human-readable message of a violation. Every constructor stands for one message
  template of analyzer.ts and carries the values interpolated into it.
\<close>

datatype message =
    MsgEval
  | MsgStringTimeout string
  | MsgSendBeacon
  | MsgDangerousCall string
  | MsgCreateElement string
  | MsgObfuscationCall string
  | MsgFromCharCode
  | MsgStorageListener
  | MsgGlobalOverride string
  | MsgPrototypePollution
  | MsgOnstorage
  | MsgStorageAccess string
  | MsgCookie
  | MsgIndexedDB
  | MsgNavigatorMember string
  | MsgHtmlAssignment string
  | MsgDocumentHead
  | MsgExternalImport
  | MsgNavigatorReference
  | MsgEscapeSequence
  | MsgHighEntropy real
  | MsgSuspiciousNames "string list"
  | MsgNetworkPermission

record location =
  line :: nat
  column :: nat
  snippet :: string

record Violation =
  rule :: string
  severity :: severity
  message :: message
  location :: "location option"

record SecuritySignals =
  hasEval :: bool
  hasDynamicCodeExecution :: bool
  hasNetworkAPI :: bool
  hasNetworkWithoutPermission :: bool
  hasDynamicURLConstruction :: bool
  hasObfuscatedCode :: bool
  hasGlobalVariableOverride :: bool
  hasStorageAccess :: bool
  hasNavigatorAccess :: bool
  hasDangerousDOMManipulation :: bool
  entropy :: real
  suspiciousVariableNames :: bool
  importedPackages :: "string list"
  referencedDomains :: "string list"
  detectedViolations :: "Violation list"

record NetworkPermissions =
  allowedDomains :: "string list"

record CodePermissions =
  network :: "NetworkPermissions option"

record FileContext =
  filePath :: string
  isUserCode :: bool
  isSharedLibrary :: bool
  isBundledDependency :: bool

section \<open>utils/helpers.ts: constant tables\<close>

definition ALLOWED_PACKAGES :: "string list" where
  "ALLOWED_PACKAGES =
     [''react'', ''react-dom'', ''three'', ''@react-three/fiber'',
      ''@react-three/rapier'', ''@react-three/drei'', ''@xrift/world-sdk'']"

definition ALLOWED_DOMAINS :: "string list" where
  "ALLOWED_DOMAINS = [''cdn.jsdelivr.net'', ''unpkg.com'', ''esm.sh'']"

definition ENTROPY_THRESHOLD :: real where
  "ENTROPY_THRESHOLD = 7"

section \<open>scoring.ts\<close>

text \<open>
  \<^verbatim>\<open>calculateSecurityScore\<close>: the eight early returns, then the additive part held in
  the local variable \<^verbatim>\<open>score\<close>, clamped by \<^verbatim>\<open>Math.min(score, 100)\<close>. All the
  numbers involved are integers.
\<close>

definition unknownPackages :: "string list \<Rightarrow> string list" where
  "unknownPackages pkgs =
     filter (\<lambda>pkg. \<not> list_ex (\<lambda>allowed. startsWith pkg allowed) ALLOWED_PACKAGES) pkgs"

definition calculateSecurityScore :: "'a SecuritySignals_scheme \<Rightarrow> int" where
  "calculateSecurityScore signals =
     (if hasEval signals then 100
      else if hasDynamicCodeExecution signals then 100
      else if hasNetworkWithoutPermission signals then 100
      else if hasGlobalVariableOverride signals then 100
      else if hasStorageAccess signals then 100
      else if hasNavigatorAccess signals then 100
      else if hasDangerousDOMManipulation signals then 100
      else if hasObfuscatedCode signals then 100
      else
        let score = 0;
            score = (if hasDynamicURLConstruction signals \<and> hasNetworkAPI signals
                     then score + 40 else score);
            score = (if entropy signals > ENTROPY_THRESHOLD then score + 15 else score);
            score = (if suspiciousVariableNames signals then score + 10 else score);
            score = score + int (length (unknownPackages (importedPackages signals))) * 20;
            score = score + int (length (referencedDomains signals)) * 25
        in min score 100)"

datatype verdict = REJECT | REVIEW | APPROVE

definition getSecurityVerdict :: "int \<Rightarrow> verdict" where
  "getSecurityVerdict score =
     (if score \<ge> 70 then REJECT
      else if score \<ge> 50 then REVIEW
      else APPROVE)"

section \<open>utils/file-context.ts\<close>

definition determineFileContext :: "string \<Rightarrow> FileContext" where
  "determineFileContext path =
     (let popped = last (split_on CHR ''/'' path);
          fileName = (if popped = [] then path else popped);
          userCode = (str_includes fileName ''__federation_expose_World-''
                      \<and> endsWith fileName ''.js'');
          sharedLibrary = (startsWith fileName ''__federation_shared_''
                           \<or> str_includes path ''__federation_shared_'');
          bundledDependency = (\<not> userCode \<and> \<not> sharedLibrary
                               \<and> \<not> str_includes fileName ''__federation_fn_import''
                               \<and> fileName \<noteq> ''remoteEntry.js'')
      in \<lparr>filePath = fileName, isUserCode = userCode,
          isSharedLibrary = sharedLibrary, isBundledDependency = bundledDependency\<rparr>)"

definition technicalViolations :: "string list" where
  "technicalViolations =
     [''no-obfuscation'', ''no-dangerous-dom'', ''no-navigator-access'',
      ''no-prototype-pollution'', ''no-global-override'',
      ''no-network-without-permission'']"

definition criticalViolations :: "string list" where
  "criticalViolations = [''no-eval'', ''no-storage-access'', ''no-storage-event'']"

definition adjustViolationSeverity :: "string \<Rightarrow> severity \<Rightarrow> FileContext \<Rightarrow> severity" where
  "adjustViolationSeverity r originalSeverity context =
     (if isUserCode context then originalSeverity
      else let fileName = filePath context in
        if str_includes fileName ''__federation_fn_import'' then originalSeverity
        else let isRemoteEntry = (fileName = ''remoteEntry.js'') in
          if isSharedLibrary context \<or> isBundledDependency context \<or> isRemoteEntry
          then (if r \<in> set technicalViolations then Warning
                else if r \<in> set criticalViolations then Critical
                else originalSeverity)
          else originalSeverity)"

section \<open>The syntax tree and its traversal\<close>

text \<open>
  The parser and the tree walker are libraries outside the repository. The syntax tree
  is modelled with one constructor for every node type that analyzer.ts registers a
  callback for or inspects; any other node type is \<open>OtherNode\<close>, holding the children
  the walker descends into, each marked as walked in expression or in pattern position
  (a binding identifier in pattern position reaches no callback). Every node carries
  \<^verbatim>\<open>loc.start\<close> as a (line, column) pair, absent when the parser recorded none.
  An \<open>ImportDeclaration\<close> holds the location and the string value of its source literal.
\<close>

type_synonym source_loc = "nat \<times> nat"

datatype literal_value = StringValue string | OtherValue

datatype node =
    Identifier "source_loc option" string
  | Literal "source_loc option" literal_value
  | MemberExpression "source_loc option" node node bool
  | CallExpression "source_loc option" node "node list"
  | AssignmentExpression "source_loc option" node node
  | ImportDeclaration "source_loc option" "source_loc option" string
  | OtherNode "source_loc option" "child list"
and child = ExpressionChild node | PatternChild node

fun node_loc :: "node \<Rightarrow> source_loc option" where
  "node_loc (Identifier l _) = l"
| "node_loc (Literal l _) = l"
| "node_loc (MemberExpression l _ _ _) = l"
| "node_loc (CallExpression l _ _) = l"
| "node_loc (AssignmentExpression l _ _) = l"
| "node_loc (ImportDeclaration l _ _) = l"
| "node_loc (OtherNode l _) = l"

text \<open>
  \<^verbatim>\<open>x.type === 'Identifier' ? x.name : null\<close> and
  \<^verbatim>\<open>x?.type === 'Literal' && typeof x.value === 'string'\<close>.
\<close>

fun identifierName :: "node \<Rightarrow> string option" where
  "identifierName (Identifier _ n) = Some n"
| "identifierName _ = None"

fun stringLiteralValue :: "node \<Rightarrow> string option" where
  "stringLiteralValue (Literal _ (StringValue s)) = Some s"
| "stringLiteralValue _ = None"

fun firstStringArgument :: "node list \<Rightarrow> string option" where
  "firstStringArgument [] = None"
| "firstStringArgument (a # _) = stringLiteralValue a"

text \<open>\<^verbatim>\<open>name || fallback\<close> for a name that is a string or null.\<close>

fun orElse :: "string option \<Rightarrow> string \<Rightarrow> string" where
  "orElse None d = d"
| "orElse (Some s) d = (if s = [] then d else s)"

section \<open>utils/helpers.ts\<close>

text \<open>
  Entropies are computed in the reals: the model takes the exact value of the formula
  the source evaluates in double precision. In the reals the sum does not depend on
  the order in which the keys of \<^verbatim>\<open>frequency\<close> are enumerated.
\<close>

definition calculateEntropy :: "string \<Rightarrow> real" where
  "calculateEntropy str =
     (if length str = 0 then 0
      else fold (\<lambda>ch e. let p = real (count_list str ch) / real (length str)
                         in e - p * log 2 p)
             (remdups str) 0)"

definition calculateAverageEntropy :: "string list \<Rightarrow> real" where
  "calculateAverageEntropy strings =
     (if length strings = 0 then 0
      else let entropies = map calculateEntropy (filter (\<lambda>s. length s > 20) strings)
           in if length entropies > 0
              then foldl (+) 0 entropies / real (length entropies)
              else 0)"

text \<open>
  \<open>hostname url\<close> stands for \<^verbatim>\<open>new URL(url).hostname\<close>, \<open>None\<close> when the URL
  constructor throws; the URL parser belongs to the platform and is a parameter.
\<close>

definition extractDomains :: "(string \<Rightarrow> string option) \<Rightarrow> string list \<Rightarrow> string list" where
  "extractDomains hostname urls = List.map_filter hostname urls"

fun getCalleeName :: "node \<Rightarrow> string option" where
  "getCalleeName (Identifier _ n) = Some n"
| "getCalleeName (MemberExpression _ _ property _) = identifierName property"
| "getCalleeName _ = None"

definition getLocation :: "node \<Rightarrow> location option" where
  "getLocation n =
     (case node_loc n of
        None \<Rightarrow> None
      | Some (l, c) \<Rightarrow> Some \<lparr>line = l, column = c, snippet = ''(code snippet)''\<rparr>)"

section \<open>analyzer.ts\<close>

definition createViolation :: "string \<Rightarrow> severity \<Rightarrow> message \<Rightarrow> node option \<Rightarrow> Violation" where
  "createViolation r sev msg n =
     \<lparr>rule = r, severity = sev, message = msg,
      location = (case n of None \<Rightarrow> None | Some n' \<Rightarrow> getLocation n')\<rparr>"

text \<open>
  The state the callbacks share: the \<^verbatim>\<open>signals\<close> object and the three local arrays.
\<close>

record walk_state = SecuritySignals +
  urlStrings :: "string list"
  stringLiterals :: "string list"
  variableNames :: "string list"

definition initial_state :: walk_state where
  "initial_state =
     \<lparr>hasEval = False, hasDynamicCodeExecution = False, hasNetworkAPI = False,
      hasNetworkWithoutPermission = False, hasDynamicURLConstruction = False,
      hasObfuscatedCode = False, hasGlobalVariableOverride = False,
      hasStorageAccess = False, hasNavigatorAccess = False,
      hasDangerousDOMManipulation = False, entropy = 0,
      suspiciousVariableNames = False, importedPackages = [],
      referencedDomains = [], detectedViolations = [],
      urlStrings = [], stringLiterals = [], variableNames = []\<rparr>"

definition push_violation :: "Violation \<Rightarrow> walk_state \<Rightarrow> walk_state" where
  "push_violation v st = st\<lparr>detectedViolations := detectedViolations st @ [v]\<rparr>"

text \<open>
  What a callback can learn from \<^verbatim>\<open>ancestors[ancestors.length - 2]\<close>: whether the
  visited node is the \<^verbatim>\<open>object\<close> of a parent MemberExpression, the \<^verbatim>\<open>left\<close> of a
  parent AssignmentExpression, or neither (another slot, another parent, no parent).
  The source compares object identities; the walker knows the slot it descends into.
\<close>

datatype parent_link = ObjectOfMember | LeftOfAssignment | NoLink

subsection \<open>The CallExpression callback\<close>

definition call_eval :: "node \<Rightarrow> string option \<Rightarrow> walk_state \<Rightarrow> walk_state" where
  "call_eval n calleeName st =
     (if calleeName = Some ''eval''
      then push_violation (createViolation ''no-eval'' Critical MsgEval (Some n))
             (st\<lparr>hasEval := True\<rparr>)
      else st)"

definition call_string_timeout ::
  "node \<Rightarrow> string option \<Rightarrow> node list \<Rightarrow> walk_state \<Rightarrow> walk_state" where
  "call_string_timeout n calleeName args st =
     (if orElse calleeName [] \<in> set [''setTimeout'', ''setInterval'']
      then (if firstStringArgument args \<noteq> None
            then push_violation
                   (createViolation ''no-string-timeout'' Critical
                      (MsgStringTimeout (orElse calleeName [])) (Some n))
                   (st\<lparr>hasDynamicCodeExecution := True\<rparr>)
            else st)
      else st)"

definition call_network_api :: "string option \<Rightarrow> node list \<Rightarrow> walk_state \<Rightarrow> walk_state" where
  "call_network_api calleeName args st =
     (if orElse calleeName [] \<in> set [''fetch'', ''XMLHttpRequest'']
      then (let st = st\<lparr>hasNetworkAPI := True\<rparr> in
            case firstStringArgument args of
              Some url \<Rightarrow> st\<lparr>urlStrings := urlStrings st @ [url]\<rparr>
            | None \<Rightarrow> st\<lparr>hasDynamicURLConstruction := True\<rparr>)
      else st)"

definition call_websocket :: "string option \<Rightarrow> node list \<Rightarrow> walk_state \<Rightarrow> walk_state" where
  "call_websocket calleeName args st =
     (if calleeName = Some ''WebSocket''
      then (let st = st\<lparr>hasNetworkAPI := True\<rparr> in
            case firstStringArgument args of
              Some url \<Rightarrow> st\<lparr>urlStrings := urlStrings st @ [url]\<rparr>
            | None \<Rightarrow> st)
      else st)"

fun is_member_call :: "node \<Rightarrow> string \<Rightarrow> string \<Rightarrow> bool" where
  "is_member_call (MemberExpression _ obj prop _) objectName propertyName =
     (identifierName obj = Some objectName \<and> identifierName prop = Some propertyName)"
| "is_member_call _ _ _ = False"

definition call_sendBeacon :: "node \<Rightarrow> node \<Rightarrow> walk_state \<Rightarrow> walk_state" where
  "call_sendBeacon n callee st =
     (if is_member_call callee ''navigator'' ''sendBeacon''
      then push_violation
             (createViolation ''no-navigator-access'' Critical MsgSendBeacon (Some n))
             (st\<lparr>hasNetworkAPI := True, hasNavigatorAccess := True\<rparr>)
      else st)"

definition call_insertAdjacentHTML :: "node \<Rightarrow> string option \<Rightarrow> walk_state \<Rightarrow> walk_state" where
  "call_insertAdjacentHTML n calleeName st =
     (if orElse calleeName [] \<in> set [''insertAdjacentHTML'']
      then push_violation
             (createViolation ''no-dangerous-dom'' Critical
                (MsgDangerousCall (orElse calleeName [])) (Some n))
             (st\<lparr>hasDangerousDOMManipulation := True\<rparr>)
      else st)"

fun member_object_name :: "node \<Rightarrow> string option" where
  "member_object_name (MemberExpression _ obj _ _) = identifierName obj"
| "member_object_name _ = None"

definition call_createElement ::
  "node \<Rightarrow> string option \<Rightarrow> node \<Rightarrow> node list \<Rightarrow> walk_state \<Rightarrow> walk_state" where
  "call_createElement n calleeName callee args st =
     (if calleeName = Some ''createElement'' \<and> member_object_name callee = Some ''document''
      then (case firstStringArgument args of
              Some tag \<Rightarrow>
                (let tagName = toLowerCase tag in
                 if tagName \<in> set [''script'', ''iframe'']
                 then push_violation
                        (createViolation ''no-dangerous-dom'' Critical
                           (MsgCreateElement tagName) (Some n))
                        (st\<lparr>hasDangerousDOMManipulation := True\<rparr>)
                 else st)
            | None \<Rightarrow> st)
      else st)"

definition call_obfuscation :: "node \<Rightarrow> string option \<Rightarrow> walk_state \<Rightarrow> walk_state" where
  "call_obfuscation n calleeName st =
     (if orElse calleeName [] \<in> set [''atob'', ''btoa'', ''unescape'', ''decodeURIComponent'']
      then push_violation
             (createViolation ''no-obfuscation'' Critical
                (MsgObfuscationCall (orElse calleeName [])) (Some n))
             (st\<lparr>hasObfuscatedCode := True\<rparr>)
      else st)"

definition call_fromCharCode :: "node \<Rightarrow> node \<Rightarrow> walk_state \<Rightarrow> walk_state" where
  "call_fromCharCode n callee st =
     (if is_member_call callee ''String'' ''fromCharCode''
      then push_violation
             (createViolation ''no-obfuscation'' Critical MsgFromCharCode (Some n))
             (st\<lparr>hasObfuscatedCode := True\<rparr>)
      else st)"

fun member_property_name :: "node \<Rightarrow> string option" where
  "member_property_name (MemberExpression _ _ prop _) = identifierName prop"
| "member_property_name _ = None"

definition call_storage_listener :: "node \<Rightarrow> node \<Rightarrow> node list \<Rightarrow> walk_state \<Rightarrow> walk_state" where
  "call_storage_listener n callee args st =
     (if member_property_name callee = Some ''addEventListener''
      then (if firstStringArgument args = Some ''storage''
            then push_violation
                   (createViolation ''no-storage-event'' Critical MsgStorageListener (Some n))
                   (st\<lparr>hasStorageAccess := True\<rparr>)
            else st)
      else st)"

fun CallExpression_visitor :: "node \<Rightarrow> walk_state \<Rightarrow> walk_state" where
  "CallExpression_visitor (CallExpression l callee args) st =
     (let n = CallExpression l callee args;
          calleeName = getCalleeName callee;
          st = call_eval n calleeName st;
          st = call_string_timeout n calleeName args st;
          st = call_network_api calleeName args st;
          st = call_websocket calleeName args st;
          st = call_sendBeacon n callee st;
          st = call_insertAdjacentHTML n calleeName st;
          st = call_createElement n calleeName callee args st;
          st = call_obfuscation n calleeName st;
          st = call_fromCharCode n callee st;
          st = call_storage_listener n callee args st
      in st)"
| "CallExpression_visitor _ st = st"

subsection \<open>The AssignmentExpression callback\<close>

definition assign_global :: "node \<Rightarrow> node \<Rightarrow> walk_state \<Rightarrow> walk_state" where
  "assign_global n left st =
     (case member_object_name left of
        Some objectName \<Rightarrow>
          (if objectName \<in> set [''window'', ''globalThis'', ''document'', ''navigator'']
           then (let st = st\<lparr>hasGlobalVariableOverride := True\<rparr>;
                     st = (if objectName = ''navigator''
                           then st\<lparr>hasNavigatorAccess := True\<rparr> else st)
                 in push_violation
                      (createViolation ''no-global-override'' Critical
                         (MsgGlobalOverride objectName) (Some n)) st)
           else st)
      | None \<Rightarrow> st)"

fun is_prototype_member :: "node \<Rightarrow> bool" where
  "is_prototype_member (MemberExpression _ (MemberExpression _ _ prop _) _ _) =
     (identifierName prop = Some ''prototype'')"
| "is_prototype_member _ = False"

definition assign_prototype :: "node \<Rightarrow> node \<Rightarrow> walk_state \<Rightarrow> walk_state" where
  "assign_prototype n left st =
     (if is_prototype_member left
      then push_violation
             (createViolation ''no-prototype-pollution'' Critical MsgPrototypePollution (Some n))
             (st\<lparr>hasGlobalVariableOverride := True\<rparr>)
      else st)"

definition assign_onstorage :: "node \<Rightarrow> node \<Rightarrow> walk_state \<Rightarrow> walk_state" where
  "assign_onstorage n left st =
     (if member_property_name left = Some ''onstorage''
      then push_violation
             (createViolation ''no-storage-event'' Critical MsgOnstorage (Some n))
             (st\<lparr>hasStorageAccess := True\<rparr>)
      else st)"

fun AssignmentExpression_visitor :: "node \<Rightarrow> walk_state \<Rightarrow> walk_state" where
  "AssignmentExpression_visitor (AssignmentExpression l left right) st =
     (let n = AssignmentExpression l left right;
          st = assign_global n left st;
          st = assign_prototype n left st;
          st = assign_onstorage n left st
      in st)"
| "AssignmentExpression_visitor _ st = st"

subsection \<open>The MemberExpression callback\<close>

definition member_storage :: "node \<Rightarrow> string option \<Rightarrow> walk_state \<Rightarrow> walk_state" where
  "member_storage n objectName st =
     (if orElse objectName [] \<in> set [''localStorage'', ''sessionStorage'']
      then push_violation
             (createViolation ''no-storage-access'' Critical
                (MsgStorageAccess (orElse objectName [])) (Some n))
             (st\<lparr>hasStorageAccess := True\<rparr>)
      else st)"

definition member_cookie ::
  "node \<Rightarrow> string option \<Rightarrow> string option \<Rightarrow> walk_state \<Rightarrow> walk_state" where
  "member_cookie n objectName propertyName st =
     (if objectName = Some ''document'' \<and> propertyName = Some ''cookie''
      then push_violation
             (createViolation ''no-cookie-access'' Critical MsgCookie (Some n))
             (st\<lparr>hasStorageAccess := True\<rparr>)
      else st)"

definition member_indexedDB :: "node \<Rightarrow> string option \<Rightarrow> walk_state \<Rightarrow> walk_state" where
  "member_indexedDB n objectName st =
     (if objectName = Some ''indexedDB''
      then push_violation
             (createViolation ''no-indexeddb-access'' Critical MsgIndexedDB (Some n))
             (st\<lparr>hasStorageAccess := True\<rparr>)
      else st)"

definition member_navigator ::
  "node \<Rightarrow> string option \<Rightarrow> string option \<Rightarrow> walk_state \<Rightarrow> walk_state" where
  "member_navigator n objectName propertyName st =
     (if objectName = Some ''navigator''
      then push_violation
             (createViolation ''no-navigator-access'' Critical
                (MsgNavigatorMember (orElse propertyName ''*'')) (Some n))
             (st\<lparr>hasNavigatorAccess := True\<rparr>)
      else st)"

definition member_html ::
  "parent_link \<Rightarrow> node \<Rightarrow> string option \<Rightarrow> walk_state \<Rightarrow> walk_state" where
  "member_html parent n propertyName st =
     (if orElse propertyName [] \<in> set [''innerHTML'', ''outerHTML'']
      then (if parent = LeftOfAssignment
            then push_violation
                   (createViolation ''no-dangerous-dom'' Critical
                      (MsgHtmlAssignment (orElse propertyName [])) (Some n))
                   (st\<lparr>hasDangerousDOMManipulation := True\<rparr>)
            else st)
      else st)"

definition member_document_head ::
  "node \<Rightarrow> string option \<Rightarrow> string option \<Rightarrow> walk_state \<Rightarrow> walk_state" where
  "member_document_head n objectName propertyName st =
     (if objectName = Some ''document'' \<and> propertyName = Some ''head''
      then push_violation
             (createViolation ''no-dangerous-dom'' Critical MsgDocumentHead (Some n))
             (st\<lparr>hasDangerousDOMManipulation := True\<rparr>)
      else st)"

fun MemberExpression_visitor :: "parent_link \<Rightarrow> node \<Rightarrow> walk_state \<Rightarrow> walk_state" where
  "MemberExpression_visitor parent (MemberExpression l obj prop computed) st =
     (let n = MemberExpression l obj prop computed;
          objectName = identifierName obj;
          propertyName = identifierName prop;
          st = member_storage n objectName st;
          st = member_cookie n objectName propertyName st;
          st = member_indexedDB n objectName st;
          st = member_navigator n objectName propertyName st;
          st = member_html parent n propertyName st;
          st = member_document_head n objectName propertyName st
      in st)"
| "MemberExpression_visitor _ _ st = st"

subsection \<open>The ImportDeclaration, Identifier and Literal callbacks\<close>

fun ImportDeclaration_visitor :: "node \<Rightarrow> walk_state \<Rightarrow> walk_state" where
  "ImportDeclaration_visitor (ImportDeclaration l sl source) st =
     (let st = st\<lparr>importedPackages := importedPackages st @ [source]\<rparr>
      in if startsWith source ''http://'' \<or> startsWith source ''https://''
         then push_violation
                (createViolation ''no-external-import'' Critical MsgExternalImport
                   (Some (ImportDeclaration l sl source))) st
         else st)"
| "ImportDeclaration_visitor _ st = st"

fun Identifier_visitor :: "parent_link \<Rightarrow> node \<Rightarrow> walk_state \<Rightarrow> walk_state" where
  "Identifier_visitor parent (Identifier l name) st =
     (let st = st\<lparr>variableNames := variableNames st @ [name]\<rparr>
      in if name = ''navigator''
         then (if parent \<noteq> ObjectOfMember
               then push_violation
                      (createViolation ''no-navigator-access'' Critical
                         MsgNavigatorReference (Some (Identifier l name)))
                      (st\<lparr>hasNavigatorAccess := True\<rparr>)
               else st)
         else st)"
| "Identifier_visitor _ _ st = st"

definition isHexDigit :: "char \<Rightarrow> bool" where
  "isHexDigit c = (c \<in> set ''0123456789abcdefABCDEF'')"

text \<open>The two regular expressions of the Literal callback; \<open>CHR 0x5C\<close> is the backslash.\<close>

fun hasHexEscape :: "string \<Rightarrow> bool" where
  "hasHexEscape (a # b # c # d # rest) =
     ((a = CHR 0x5C \<and> b = CHR ''x'' \<and> isHexDigit c \<and> isHexDigit d)
      \<or> hasHexEscape (b # c # d # rest))"
| "hasHexEscape _ = False"

fun hasUnicodeEscape :: "string \<Rightarrow> bool" where
  "hasUnicodeEscape (a # b # c # d # e # f # rest) =
     ((a = CHR 0x5C \<and> b = CHR ''u'' \<and> isHexDigit c \<and> isHexDigit d
         \<and> isHexDigit e \<and> isHexDigit f)
      \<or> hasUnicodeEscape (b # c # d # e # f # rest))"
| "hasUnicodeEscape _ = False"

fun Literal_visitor :: "node \<Rightarrow> walk_state \<Rightarrow> walk_state" where
  "Literal_visitor (Literal l (StringValue v)) st =
     (let st = st\<lparr>stringLiterals := stringLiterals st @ [v]\<rparr>
      in if hasHexEscape v \<or> hasUnicodeEscape v
         then push_violation
                (createViolation ''no-obfuscation'' Critical MsgEscapeSequence
                   (Some (Literal l (StringValue v))))
                (st\<lparr>hasObfuscatedCode := True\<rparr>)
         else st)"
| "Literal_visitor _ st = st"

subsection \<open>The traversal\<close>

text \<open>
  \<^verbatim>\<open>walk.ancestor\<close>: the children first, then the callback registered for the node's
  type. A member expression's property is walked only when computed; the left side
  of an assignment and every pattern child are walked as patterns, where an identifier
  is skipped; the source literal of an import is walked as a literal.
\<close>

fun walk :: "parent_link \<Rightarrow> node \<Rightarrow> walk_state \<Rightarrow> walk_state"
  and walk_nodes :: "node list \<Rightarrow> walk_state \<Rightarrow> walk_state"
  and walk_child :: "child \<Rightarrow> walk_state \<Rightarrow> walk_state"
  and walk_children :: "child list \<Rightarrow> walk_state \<Rightarrow> walk_state" where
  "walk parent (Identifier l name) st = Identifier_visitor parent (Identifier l name) st"
| "walk parent (Literal l v) st = Literal_visitor (Literal l v) st"
| "walk parent (MemberExpression l obj prop computed) st =
     (let st = walk ObjectOfMember obj st;
          st = (if computed then walk NoLink prop st else st)
      in MemberExpression_visitor parent (MemberExpression l obj prop computed) st)"
| "walk parent (CallExpression l callee args) st =
     (let st = walk NoLink callee st;
          st = walk_nodes args st
      in CallExpression_visitor (CallExpression l callee args) st)"
| "walk parent (AssignmentExpression l left right) st =
     (let st = (case left of
                  Identifier _ _ \<Rightarrow> st
                | _ \<Rightarrow> walk LeftOfAssignment left st);
          st = walk NoLink right st
      in AssignmentExpression_visitor (AssignmentExpression l left right) st)"
| "walk parent (ImportDeclaration l sl source) st =
     (let st = Literal_visitor (Literal sl (StringValue source)) st
      in ImportDeclaration_visitor (ImportDeclaration l sl source) st)"
| "walk parent (OtherNode l cs) st = walk_children cs st"
| "walk_nodes [] st = st"
| "walk_nodes (n # ns) st = walk_nodes ns (walk NoLink n st)"
| "walk_child (ExpressionChild n) st = walk NoLink n st"
| "walk_child (PatternChild n) st =
     (case n of
        Identifier _ _ \<Rightarrow> st
      | _ \<Rightarrow> walk NoLink n st)"
| "walk_children [] st = st"
| "walk_children (c # cs) st = walk_children cs (walk_child c st)"

subsection \<open>After the traversal\<close>

definition check_entropy :: "walk_state \<Rightarrow> walk_state" where
  "check_entropy st =
     (let st = st\<lparr>entropy := calculateAverageEntropy (stringLiterals st)\<rparr>
      in if entropy st > ENTROPY_THRESHOLD
         then push_violation
                (createViolation ''no-obfuscation'' Critical (MsgHighEntropy (entropy st)) None)
                (st\<lparr>hasObfuscatedCode := True\<rparr>)
         else st)"

definition isNameChar :: "char \<Rightarrow> bool" where
  "isNameChar c =
     (c \<in> set ''abcdefghijklmnopqrstuvwxyzABCDEFGHIJKLMNOPQRSTUVWXYZ0123456789_$'')"

fun matchesObfuscatedName :: "string \<Rightarrow> bool" where
  "matchesObfuscatedName [] = False"
| "matchesObfuscatedName (c # rest) =
     (c \<in> set ''_$'' \<and> length rest \<ge> 4 \<and> list_all isNameChar rest)"

definition check_variable_names :: "walk_state \<Rightarrow> walk_state" where
  "check_variable_names st =
     (let suspiciousVars =
            filter (\<lambda>name. matchesObfuscatedName name \<and> calculateEntropy name > 3.5)
              (variableNames st)
      in if length suspiciousVars > 0
         then push_violation
                (createViolation ''no-obfuscation'' Critical
                   (MsgSuspiciousNames (take 3 suspiciousVars)) None)
                (st\<lparr>hasObfuscatedCode := True, suspiciousVariableNames := True\<rparr>)
         else st)"

definition permitted_domains :: "CodePermissions option \<Rightarrow> string list" where
  "permitted_domains permissions =
     (case permissions of
        None \<Rightarrow> []
      | Some p \<Rightarrow> (case network p of None \<Rightarrow> [] | Some nw \<Rightarrow> allowedDomains nw))"

definition check_permissions :: "CodePermissions option \<Rightarrow> walk_state \<Rightarrow> walk_state" where
  "check_permissions permissions st =
     (if hasNetworkAPI st
      then (let allowed = permitted_domains permissions;
                hasUnauthorizedDomain =
                  list_ex (\<lambda>domain. domain \<notin> set allowed \<and> domain \<notin> set ALLOWED_DOMAINS)
                    (referencedDomains st)
            in if hasUnauthorizedDomain \<or> hasDynamicURLConstruction st
               then push_violation
                      (createViolation ''no-network-without-permission'' Critical
                         MsgNetworkPermission None)
                      (st\<lparr>hasNetworkWithoutPermission := True\<rparr>)
               else st)
      else st)"

text \<open>
  \<open>analyzeTree\<close> is the body of \<^verbatim>\<open>analyzeCodeSecurity\<close> from the parsed tree on;
  \<open>analyzeCodeSecurity\<close> puts the parser in front, \<open>parse code = None\<close> standing for
  the syntax error the parser throws.
\<close>

definition analyzeTree ::
  "(string \<Rightarrow> string option) \<Rightarrow> node \<Rightarrow> CodePermissions option \<Rightarrow> SecuritySignals" where
  "analyzeTree hostname ast permissions =
     (let st = walk NoLink ast initial_state;
          st = check_entropy st;
          st = check_variable_names st;
          st = st\<lparr>referencedDomains := extractDomains hostname (urlStrings st)\<rparr>;
          st = check_permissions permissions st
      in SecuritySignals.truncate st)"

datatype analysis_error = ParseError

definition analyzeCodeSecurity ::
  "(string \<Rightarrow> node option) \<Rightarrow> (string \<Rightarrow> string option) \<Rightarrow> string
     \<Rightarrow> CodePermissions option \<Rightarrow> analysis_error + SecuritySignals" where
  "analyzeCodeSecurity parse hostname code permissions =
     (case parse code of
        None \<Rightarrow> Inl ParseError
      | Some ast \<Rightarrow> Inr (analyzeTree hostname ast permissions))"

section \<open>index.ts\<close>

record ManifestConfig =
  permissions :: "CodePermissions option"

record PackageJson =
  dependencies :: "(string \<times> string) list"

record ValidateCodeRequest =
  code :: string
  sourceMap :: "string option"
  packageJson :: PackageJson
  manifestConfig :: "ManifestConfig option"
  fileContext :: "FileContext option"

datatype suspicious_pattern =
    DynamicURLConstruction
  | GlobalVariableTampering
  | HighEntropyString real
  | SuspiciousVariableName

record Violations =
  critical :: "Violation list"
  warnings :: "Violation list"

record Analysis =
  analysisEntropy :: real
  suspiciousPatterns :: "suspicious_pattern list"
  detectedAPIs :: "string list"
  externalDependencies :: "string list"

record ValidateCodeResponse =
  valid :: bool
  securityScore :: int
  violations :: Violations
  analysis :: Analysis

definition adjustViolations :: "FileContext \<Rightarrow> Violation list \<Rightarrow> Violation list" where
  "adjustViolations context vs =
     map (\<lambda>violation.
            violation\<lparr>severity :=
              adjustViolationSeverity (rule violation) (severity violation) context\<rparr>) vs"

definition request_permissions :: "ValidateCodeRequest \<Rightarrow> CodePermissions option" where
  "request_permissions request =
     (case manifestConfig request of None \<Rightarrow> None | Some m \<Rightarrow> permissions m)"

definition respond :: "FileContext \<Rightarrow> SecuritySignals \<Rightarrow> ValidateCodeResponse" where
  "respond context signals =
     (let adjustedViolations = adjustViolations context (detectedViolations signals);
          score = calculateSecurityScore signals;
          crit = filter (\<lambda>v. severity v = Critical) adjustedViolations;
          warn = filter (\<lambda>v. severity v \<noteq> Critical) adjustedViolations;
          apis =
            (if hasEval signals then [''eval''] else [])
            @ (if hasDynamicCodeExecution signals
               then [''setTimeout/setInterval(string)''] else [])
            @ (if hasNetworkAPI signals then [''fetch/WebSocket/XMLHttpRequest''] else [])
            @ (if hasStorageAccess signals
               then [''localStorage/sessionStorage/indexedDB/cookie''] else [])
            @ (if hasNavigatorAccess signals then [''navigator''] else [])
            @ (if hasDangerousDOMManipulation signals
               then [''innerHTML/outerHTML/createElement''] else [])
            @ (if hasObfuscatedCode signals
               then [''obfuscation (atob/btoa/fromCharCode)''] else []);
          patterns =
            (if hasDynamicURLConstruction signals then [DynamicURLConstruction] else [])
            @ (if hasGlobalVariableOverride signals then [GlobalVariableTampering] else [])
            @ (if entropy signals > ENTROPY_THRESHOLD
               then [HighEntropyString (entropy signals)] else [])
            @ (if suspiciousVariableNames signals then [SuspiciousVariableName] else []);
          external =
            filter (\<lambda>pkg. startsWith pkg ''http://'' \<or> startsWith pkg ''https://'')
              (importedPackages signals)
      in \<lparr>valid = (length crit = 0),
          securityScore = score,
          violations = \<lparr>critical = crit, warnings = warn\<rparr>,
          analysis = \<lparr>analysisEntropy = entropy signals, suspiciousPatterns = patterns,
                      detectedAPIs = apis, externalDependencies = external\<rparr>\<rparr>)"

text \<open>
  \<^verbatim>\<open>CodeSecurityService.validate\<close>; \<open>respond\<close> above is its body from the adjustment
  of the violations on. The context defaults to \<^verbatim>\<open>determineFileContext(request.code)\<close>:
  the source passes the code text there.
\<close>

definition validate ::
  "(string \<Rightarrow> node option) \<Rightarrow> (string \<Rightarrow> string option) \<Rightarrow> ValidateCodeRequest
     \<Rightarrow> analysis_error + ValidateCodeResponse" where
  "validate parse hostname request =
     (let context = (case fileContext request of
                       Some c \<Rightarrow> c
                     | None \<Rightarrow> determineFileContext (code request))
      in case analyzeCodeSecurity parse hostname (code request) (request_permissions request) of
           Inl e \<Rightarrow> Inl e
         | Inr signals \<Rightarrow> Inr (respond context signals))"

section \<open>Notions used in the statements and proofs\<close>

text \<open>
  The walk of a node in pattern position, as it occurs for the left side of an
  assignment and for pattern children.
\<close>

definition walk_pattern :: "parent_link \<Rightarrow> node \<Rightarrow> walk_state \<Rightarrow> walk_state" where
  "walk_pattern parent n st = (case n of Identifier _ _ \<Rightarrow> st | _ \<Rightarrow> walk parent n st)"

text \<open>
  The nodes handed to a callback during the walk of a tree, in the order of the calls.
\<close>

fun visited :: "node \<Rightarrow> node list"
  and visited_nodes :: "node list \<Rightarrow> node list"
  and visited_child :: "child \<Rightarrow> node list"
  and visited_children :: "child list \<Rightarrow> node list" where
  "visited (Identifier l name) = [Identifier l name]"
| "visited (Literal l v) = [Literal l v]"
| "visited (MemberExpression l obj prp computed) =
     visited obj @ (if computed then visited prp else [])
       @ [MemberExpression l obj prp computed]"
| "visited (CallExpression l callee args) =
     visited callee @ visited_nodes args @ [CallExpression l callee args]"
| "visited (AssignmentExpression l left right) =
     (case left of Identifier _ _ \<Rightarrow> [] | _ \<Rightarrow> visited left)
       @ visited right @ [AssignmentExpression l left right]"
| "visited (ImportDeclaration l sl source) =
     [Literal sl (StringValue source), ImportDeclaration l sl source]"
| "visited (OtherNode l cs) = visited_children cs"
| "visited_nodes [] = []"
| "visited_nodes (n # ns) = visited n @ visited_nodes ns"
| "visited_child (ExpressionChild n) = visited n"
| "visited_child (PatternChild n) = (case n of Identifier _ _ \<Rightarrow> [] | _ \<Rightarrow> visited n)"
| "visited_children [] = []"
| "visited_children (c # cs) = visited_child c @ visited_children cs"

text \<open>
  \<open>extends st st'\<close>: \<open>st'\<close> keeps every violation of \<open>st\<close> and the override flag.
\<close>

definition extends :: "walk_state \<Rightarrow> walk_state \<Rightarrow> bool" where
  "extends st st' =
     (set (detectedViolations st) \<subseteq> set (detectedViolations st')
      \<and> (hasGlobalVariableOverride st \<longrightarrow> hasGlobalVariableOverride st'))"

text \<open>
  A flag is justified by a list of violations when, if it is set, the list holds a
  violation of one of the given rules; a record is backed when each of the eight
  flags that have rules of their own is justified by its detected violations.
\<close>

definition justified :: "bool \<Rightarrow> string set \<Rightarrow> Violation list \<Rightarrow> bool" where
  "justified flag rules vs = (flag \<longrightarrow> (\<exists>v\<in>set vs. rule v \<in> rules))"

definition backed :: "'a SecuritySignals_scheme \<Rightarrow> bool" where
  "backed s =
     (justified (hasEval s) {''no-eval''} (detectedViolations s)
      \<and> justified (hasDynamicCodeExecution s) {''no-string-timeout''} (detectedViolations s)
      \<and> justified (hasNetworkWithoutPermission s) {''no-network-without-permission''}
            (detectedViolations s)
      \<and> justified (hasObfuscatedCode s) {''no-obfuscation''} (detectedViolations s)
      \<and> justified (hasGlobalVariableOverride s)
            {''no-global-override'', ''no-prototype-pollution''} (detectedViolations s)
      \<and> justified (hasStorageAccess s)
            {''no-storage-access'', ''no-cookie-access'', ''no-indexeddb-access'',
             ''no-storage-event''} (detectedViolations s)
      \<and> justified (hasNavigatorAccess s) {''no-navigator-access''} (detectedViolations s)
      \<and> justified (hasDangerousDOMManipulation s) {''no-dangerous-dom''}
            (detectedViolations s))"

text \<open>
  The permission rule has not been raised; an assignment to a prototype has been
  recorded.
\<close>

definition unpermitted_free :: "'a SecuritySignals_scheme \<Rightarrow> bool" where
  "unpermitted_free s =
     (\<not> hasNetworkWithoutPermission s
      \<and> (\<forall>v\<in>set (detectedViolations s). rule v \<noteq> ''no-network-without-permission''))"

definition polluted :: "'a SecuritySignals_scheme \<Rightarrow> bool" where
  "polluted s =
     (hasGlobalVariableOverride s
      \<and> (\<exists>v\<in>set (detectedViolations s).
            rule v = ''no-prototype-pollution'' \<and> severity v = Critical))"

text \<open>The state of the analysis just before the permission check.\<close>

definition before_permissions ::
  "(string \<Rightarrow> string option) \<Rightarrow> node \<Rightarrow> walk_state" where
  "before_permissions hostname ast =
     (let st = check_variable_names (check_entropy (walk NoLink ast initial_state))
      in st\<lparr>referencedDomains := extractDomains hostname (urlStrings st)\<rparr>)"

section \<open>Example programs\<close>

text \<open>
  Syntax trees of small programs, used to evaluate the definitions. A program is an
  \<open>OtherNode\<close> of statements and an expression statement an \<open>OtherNode\<close> of its expression.
\<close>

definition program_of :: "node list \<Rightarrow> node" where
  "program_of exprs =
     OtherNode (Some (1, 0))
       (map (\<lambda>e. ExpressionChild (OtherNode (node_loc e) [ExpressionChild e])) exprs)"

text \<open>\<^verbatim>\<open>WebSocket(url)\<close> and \<^verbatim>\<open>fetch(url)\<close>\<close>

definition websocket_dynamic :: node where
  "websocket_dynamic =
     program_of [CallExpression (Some (1, 0)) (Identifier (Some (1, 0)) ''WebSocket'')
                   [Identifier (Some (1, 10)) ''url'']]"

definition fetch_dynamic :: node where
  "fetch_dynamic =
     program_of [CallExpression (Some (1, 0)) (Identifier (Some (1, 0)) ''fetch'')
                   [Identifier (Some (1, 6)) ''url'']]"

text \<open>\<^verbatim>\<open>fetch('https://esm.sh/x')\<close>\<close>

definition fetch_cdn :: node where
  "fetch_cdn =
     program_of [CallExpression (Some (1, 0)) (Identifier (Some (1, 0)) ''fetch'')
                   [Literal (Some (1, 6)) (StringValue ''https://esm.sh/x'')]]"

definition example_hostname :: "string \<Rightarrow> string option" where
  "example_hostname url =
     (if url = ''https://esm.sh/x'' then Some ''esm.sh'' else None)"

text \<open>\<^verbatim>\<open>el.innerHTML = html\<close>\<close>

definition innerHTML_assignment :: node where
  "innerHTML_assignment =
     program_of [AssignmentExpression (Some (1, 0))
                   (MemberExpression (Some (1, 0)) (Identifier (Some (1, 0)) ''el'')
                      (Identifier (Some (1, 3)) ''innerHTML'') False)
                   (Identifier (Some (1, 15)) ''html'')]"

text \<open>\<^verbatim>\<open>Object.prototype.isAdmin = true\<close>\<close>

definition prototype_assignment :: node where
  "prototype_assignment =
     AssignmentExpression (Some (1, 0))
       (MemberExpression (Some (1, 0))
          (MemberExpression (Some (1, 0)) (Identifier (Some (1, 0)) ''Object'')
             (Identifier (Some (1, 7)) ''prototype'') False)
          (Identifier (Some (1, 17)) ''isAdmin'') False)
       (Literal (Some (1, 27)) OtherValue)"

text \<open>\<^verbatim>\<open>navigator.a = 1\<close>\<close>

definition navigator_assignment :: node where
  "navigator_assignment =
     program_of [AssignmentExpression (Some (1, 0))
                   (MemberExpression (Some (1, 0)) (Identifier (Some (1, 0)) ''navigator'')
                      (Identifier (Some (1, 10)) ''a'') False)
                   (Literal (Some (1, 14)) OtherValue)]"

text \<open>\<^verbatim>\<open>eval(atob(localStorage.x))\<close>\<close>

definition eval_atob_storage :: node where
  "eval_atob_storage =
     program_of [CallExpression (Some (1, 0)) (Identifier (Some (1, 0)) ''eval'')
                   [CallExpression (Some (1, 5)) (Identifier (Some (1, 5)) ''atob'')
                      [MemberExpression (Some (1, 10))
                         (Identifier (Some (1, 10)) ''localStorage'')
                         (Identifier (Some (1, 23)) ''x'') False]]]"

text \<open>\<^verbatim>\<open>setTimeout("a")\<close>\<close>

definition string_timeout :: node where
  "string_timeout =
     program_of [CallExpression (Some (1, 0)) (Identifier (Some (1, 0)) ''setTimeout'')
                   [Literal (Some (1, 11)) (StringValue ''a'')]]"

definition quiet_signals :: SecuritySignals where
  "quiet_signals =
     \<lparr>hasEval = False, hasDynamicCodeExecution = False, hasNetworkAPI = False,
      hasNetworkWithoutPermission = False, hasDynamicURLConstruction = False,
      hasObfuscatedCode = False, hasGlobalVariableOverride = False,
      hasStorageAccess = False, hasNavigatorAccess = False,
      hasDangerousDOMManipulation = False, entropy = 0,
      suspiciousVariableNames = False, importedPackages = [''lodash''],
      referencedDomains = [''unpkg.com''], detectedViolations = []\<rparr>"

definition shared_library_context :: FileContext where
  "shared_library_context =
     \<lparr>filePath = ''__federation_shared_react.js'', isUserCode = False,
      isSharedLibrary = True, isBundledDependency = False\<rparr>"

definition user_code_context :: FileContext where
  "user_code_context =
     \<lparr>filePath = ''__federation_expose_World-abc.js'', isUserCode = True,
      isSharedLibrary = False, isBundledDependency = False\<rparr>"

text \<open>A request for \<^verbatim>\<open>el.innerHTML = html\<close> under a given file context.\<close>

definition innerHTML_request :: "FileContext \<Rightarrow> ValidateCodeRequest" where
  "innerHTML_request c =
     \<lparr>code = ''el.innerHTML = html'', sourceMap = None,
      packageJson = \<lparr>dependencies = []\<rparr>, manifestConfig = None,
      fileContext = Some c\<rparr>"

section \<open>Properties of the traversal\<close>

lemmas visitor_simps =
  Identifier_visitor.simps Literal_visitor.simps MemberExpression_visitor.simps
  CallExpression_visitor.simps AssignmentExpression_visitor.simps
  ImportDeclaration_visitor.simps

declare visitor_simps [simp del]

lemmas block_defs =
  call_eval_def call_string_timeout_def call_network_api_def call_websocket_def
  call_sendBeacon_def call_insertAdjacentHTML_def call_createElement_def
  call_obfuscation_def call_fromCharCode_def call_storage_listener_def
  assign_global_def assign_prototype_def assign_onstorage_def
  member_storage_def member_cookie_def member_indexedDB_def member_navigator_def
  member_html_def member_document_head_def

text \<open>
  A property of the state that every callback preserves is preserved by the traversal.
  The callback for assignments may rely on the state being the one reached after the
  walk of both sides.
\<close>

lemma walk_assignment:
  "walk parent (AssignmentExpression l left right) st =
     AssignmentExpression_visitor (AssignmentExpression l left right)
       (walk NoLink right (walk_pattern LeftOfAssignment left st))"
  by (simp add: walk_pattern_def Let_def)

lemma walk_preserves:
  assumes ident: "\<And>p n st. P st \<Longrightarrow> P (Identifier_visitor p n st)"
    and lit: "\<And>n st. P st \<Longrightarrow> P (Literal_visitor n st)"
    and mem: "\<And>p n st. P st \<Longrightarrow> P (MemberExpression_visitor p n st)"
    and call: "\<And>n st. P st \<Longrightarrow> P (CallExpression_visitor n st)"
    and asg: "\<And>l left right st.
                P (walk NoLink right (walk_pattern LeftOfAssignment left st)) \<Longrightarrow>
                P (AssignmentExpression_visitor (AssignmentExpression l left right)
                     (walk NoLink right (walk_pattern LeftOfAssignment left st)))"
    and imp: "\<And>n st. P st \<Longrightarrow> P (ImportDeclaration_visitor n st)"
  shows "P st \<Longrightarrow> P (walk p n st)"
    and "P st \<Longrightarrow> P (walk_nodes ns st)"
    and "P st \<Longrightarrow> P (walk_child c st)"
    and "P st \<Longrightarrow> P (walk_children cs st)"
proof (induction p n st and ns st and c st and cs st
       rule: walk_walk_nodes_walk_child_walk_children.induct)
  case (1 parent l name st)
  then show ?case by (simp add: ident)
next
  case (2 parent l v st)
  then show ?case by (simp add: lit)
next
  case (3 parent l obj prp computed st)
  then show ?case by (simp add: mem Let_def)
next
  case (4 parent l callee args st)
  then show ?case by (simp add: call Let_def)
next
  case (5 parent l left right st)
  have "P (walk_pattern LeftOfAssignment left st)"
    using "5.prems" "5.IH"(1-6) by (cases left) (simp_all add: walk_pattern_def)
  then have "P (walk NoLink right (walk_pattern LeftOfAssignment left st))"
    unfolding walk_pattern_def by (rule "5.IH"(7) [OF refl])
  then show ?case
    unfolding walk_assignment by (rule asg)
next
  case (6 parent l sl source st)
  then show ?case by (simp add: lit imp Let_def)
next
  case (11 n st)
  then show ?case by (cases n) simp_all
qed simp_all

subsection \<open>The callbacks only add\<close>

lemma extends_refl: "extends st st"
  by (simp add: extends_def)

lemma extends_trans: "extends a b \<Longrightarrow> extends b c \<Longrightarrow> extends a c"
  unfolding extends_def by blast

lemma extends_updates:
  "extends st0 st \<Longrightarrow> extends st0 (push_violation v st)"
  "extends st0 st \<Longrightarrow> extends st0 (st\<lparr>hasEval := True\<rparr>)"
  "extends st0 st \<Longrightarrow> extends st0 (st\<lparr>hasDynamicCodeExecution := True\<rparr>)"
  "extends st0 st \<Longrightarrow> extends st0 (st\<lparr>hasNetworkAPI := True\<rparr>)"
  "extends st0 st \<Longrightarrow> extends st0 (st\<lparr>hasDynamicURLConstruction := True\<rparr>)"
  "extends st0 st \<Longrightarrow> extends st0 (st\<lparr>hasObfuscatedCode := True\<rparr>)"
  "extends st0 st \<Longrightarrow> extends st0 (st\<lparr>hasGlobalVariableOverride := True\<rparr>)"
  "extends st0 st \<Longrightarrow> extends st0 (st\<lparr>hasStorageAccess := True\<rparr>)"
  "extends st0 st \<Longrightarrow> extends st0 (st\<lparr>hasNavigatorAccess := True\<rparr>)"
  "extends st0 st \<Longrightarrow> extends st0 (st\<lparr>hasDangerousDOMManipulation := True\<rparr>)"
  "extends st0 st \<Longrightarrow> extends st0 (st\<lparr>urlStrings := us\<rparr>)"
  "extends st0 st \<Longrightarrow> extends st0 (st\<lparr>stringLiterals := ls\<rparr>)"
  "extends st0 st \<Longrightarrow> extends st0 (st\<lparr>variableNames := ns\<rparr>)"
  "extends st0 st \<Longrightarrow> extends st0 (st\<lparr>importedPackages := ps\<rparr>)"
  by (auto simp: extends_def push_violation_def)

lemma blocks_extend:
  "extends st0 st \<Longrightarrow> extends st0 (call_eval n c st)"
  "extends st0 st \<Longrightarrow> extends st0 (call_string_timeout n c args st)"
  "extends st0 st \<Longrightarrow> extends st0 (call_network_api c args st)"
  "extends st0 st \<Longrightarrow> extends st0 (call_websocket c args st)"
  "extends st0 st \<Longrightarrow> extends st0 (call_sendBeacon n callee st)"
  "extends st0 st \<Longrightarrow> extends st0 (call_insertAdjacentHTML n c st)"
  "extends st0 st \<Longrightarrow> extends st0 (call_createElement n c callee args st)"
  "extends st0 st \<Longrightarrow> extends st0 (call_obfuscation n c st)"
  "extends st0 st \<Longrightarrow> extends st0 (call_fromCharCode n callee st)"
  "extends st0 st \<Longrightarrow> extends st0 (call_storage_listener n callee args st)"
  "extends st0 st \<Longrightarrow> extends st0 (assign_global n left st)"
  "extends st0 st \<Longrightarrow> extends st0 (assign_prototype n left st)"
  "extends st0 st \<Longrightarrow> extends st0 (assign_onstorage n left st)"
  "extends st0 st \<Longrightarrow> extends st0 (member_storage n objectName st)"
  "extends st0 st \<Longrightarrow> extends st0 (member_cookie n objectName propertyName st)"
  "extends st0 st \<Longrightarrow> extends st0 (member_indexedDB n objectName st)"
  "extends st0 st \<Longrightarrow> extends st0 (member_navigator n objectName propertyName st)"
  "extends st0 st \<Longrightarrow> extends st0 (member_html parent n propertyName st)"
  "extends st0 st \<Longrightarrow> extends st0 (member_document_head n objectName propertyName st)"
  by (simp_all add: block_defs Let_def extends_updates split: option.splits)

lemma callbacks_extend:
  "extends st0 st \<Longrightarrow> extends st0 (Identifier_visitor p n st)"
  "extends st0 st \<Longrightarrow> extends st0 (Literal_visitor n st)"
  "extends st0 st \<Longrightarrow> extends st0 (MemberExpression_visitor p n st)"
  "extends st0 st \<Longrightarrow> extends st0 (CallExpression_visitor n st)"
  "extends st0 st \<Longrightarrow> extends st0 (AssignmentExpression_visitor n st)"
  "extends st0 st \<Longrightarrow> extends st0 (ImportDeclaration_visitor n st)"
proof -
  show "extends st0 st \<Longrightarrow> extends st0 (Identifier_visitor p n st)"
    by (cases n) (simp_all add: visitor_simps Let_def extends_updates)
  show "extends st0 st \<Longrightarrow> extends st0 (Literal_visitor n st)"
    by (cases "(n, st)" rule: Literal_visitor.cases)
       (simp_all add: visitor_simps Let_def extends_updates)
  show "extends st0 st \<Longrightarrow> extends st0 (MemberExpression_visitor p n st)"
    by (cases n) (simp_all add: visitor_simps Let_def blocks_extend)
  show "extends st0 st \<Longrightarrow> extends st0 (CallExpression_visitor n st)"
    by (cases n) (simp_all add: visitor_simps Let_def blocks_extend)
  show "extends st0 st \<Longrightarrow> extends st0 (AssignmentExpression_visitor n st)"
    by (cases n) (simp_all add: visitor_simps Let_def blocks_extend)
  show "extends st0 st \<Longrightarrow> extends st0 (ImportDeclaration_visitor n st)"
    by (cases n) (simp_all add: visitor_simps Let_def extends_updates)
qed

lemma walk_extends: "extends st (walk p n st)"
  by (rule walk_preserves(1) [where P = "extends st"])
     (simp_all add: callbacks_extend extends_refl)

lemma walk_pattern_extends: "extends st (walk_pattern p n st)"
proof -
  have "walk_pattern p n st = st \<or> walk_pattern p n st = walk p n st"
    by (cases n) (simp_all add: walk_pattern_def del: walk.simps)
  then show ?thesis
    using walk_extends [of st p n] extends_refl [of st] by auto
qed

subsection \<open>The permission rule is raised by the permission check alone\<close>

lemma rule_createViolation [simp]: "rule (createViolation r sev msg n) = r"
  by (simp add: createViolation_def)

lemma severity_createViolation [simp]: "severity (createViolation r sev msg n) = sev"
  by (simp add: createViolation_def)

lemma location_createViolation_None [simp]: "location (createViolation r sev msg None) = None"
  by (simp add: createViolation_def)

lemma unpermitted_free_updates:
  "unpermitted_free st \<Longrightarrow> rule v \<noteq> ''no-network-without-permission''
     \<Longrightarrow> unpermitted_free (push_violation v st)"
  "unpermitted_free st \<Longrightarrow> unpermitted_free (st\<lparr>hasEval := True\<rparr>)"
  "unpermitted_free st \<Longrightarrow> unpermitted_free (st\<lparr>hasDynamicCodeExecution := True\<rparr>)"
  "unpermitted_free st \<Longrightarrow> unpermitted_free (st\<lparr>hasNetworkAPI := True\<rparr>)"
  "unpermitted_free st \<Longrightarrow> unpermitted_free (st\<lparr>hasDynamicURLConstruction := True\<rparr>)"
  "unpermitted_free st \<Longrightarrow> unpermitted_free (st\<lparr>hasObfuscatedCode := True\<rparr>)"
  "unpermitted_free st \<Longrightarrow> unpermitted_free (st\<lparr>hasGlobalVariableOverride := True\<rparr>)"
  "unpermitted_free st \<Longrightarrow> unpermitted_free (st\<lparr>hasStorageAccess := True\<rparr>)"
  "unpermitted_free st \<Longrightarrow> unpermitted_free (st\<lparr>hasNavigatorAccess := True\<rparr>)"
  "unpermitted_free st \<Longrightarrow> unpermitted_free (st\<lparr>hasDangerousDOMManipulation := True\<rparr>)"
  "unpermitted_free st \<Longrightarrow> unpermitted_free (st\<lparr>suspiciousVariableNames := True\<rparr>)"
  "unpermitted_free st \<Longrightarrow> unpermitted_free (st\<lparr>entropy := e\<rparr>)"
  "unpermitted_free st \<Longrightarrow> unpermitted_free (st\<lparr>referencedDomains := ds\<rparr>)"
  "unpermitted_free st \<Longrightarrow> unpermitted_free (st\<lparr>urlStrings := us\<rparr>)"
  "unpermitted_free st \<Longrightarrow> unpermitted_free (st\<lparr>stringLiterals := ls\<rparr>)"
  "unpermitted_free st \<Longrightarrow> unpermitted_free (st\<lparr>variableNames := ns\<rparr>)"
  "unpermitted_free st \<Longrightarrow> unpermitted_free (st\<lparr>importedPackages := ps\<rparr>)"
  by (simp_all add: unpermitted_free_def push_violation_def)

lemma blocks_unpermitted_free:
  "unpermitted_free st \<Longrightarrow> unpermitted_free (call_eval n c st)"
  "unpermitted_free st \<Longrightarrow> unpermitted_free (call_string_timeout n c args st)"
  "unpermitted_free st \<Longrightarrow> unpermitted_free (call_network_api c args st)"
  "unpermitted_free st \<Longrightarrow> unpermitted_free (call_websocket c args st)"
  "unpermitted_free st \<Longrightarrow> unpermitted_free (call_sendBeacon n callee st)"
  "unpermitted_free st \<Longrightarrow> unpermitted_free (call_insertAdjacentHTML n c st)"
  "unpermitted_free st \<Longrightarrow> unpermitted_free (call_createElement n c callee args st)"
  "unpermitted_free st \<Longrightarrow> unpermitted_free (call_obfuscation n c st)"
  "unpermitted_free st \<Longrightarrow> unpermitted_free (call_fromCharCode n callee st)"
  "unpermitted_free st \<Longrightarrow> unpermitted_free (call_storage_listener n callee args st)"
  "unpermitted_free st \<Longrightarrow> unpermitted_free (assign_global n left st)"
  "unpermitted_free st \<Longrightarrow> unpermitted_free (assign_prototype n left st)"
  "unpermitted_free st \<Longrightarrow> unpermitted_free (assign_onstorage n left st)"
  "unpermitted_free st \<Longrightarrow> unpermitted_free (member_storage n objectName st)"
  "unpermitted_free st \<Longrightarrow> unpermitted_free (member_cookie n objectName propertyName st)"
  "unpermitted_free st \<Longrightarrow> unpermitted_free (member_indexedDB n objectName st)"
  "unpermitted_free st \<Longrightarrow> unpermitted_free (member_navigator n objectName propertyName st)"
  "unpermitted_free st \<Longrightarrow> unpermitted_free (member_html parent n propertyName st)"
  "unpermitted_free st \<Longrightarrow> unpermitted_free (member_document_head n objectName propertyName st)"
  by (simp_all add: block_defs Let_def unpermitted_free_updates split: option.splits)

lemma callbacks_unpermitted_free:
  "unpermitted_free st \<Longrightarrow> unpermitted_free (Identifier_visitor p n st)"
  "unpermitted_free st \<Longrightarrow> unpermitted_free (Literal_visitor n st)"
  "unpermitted_free st \<Longrightarrow> unpermitted_free (MemberExpression_visitor p n st)"
  "unpermitted_free st \<Longrightarrow> unpermitted_free (CallExpression_visitor n st)"
  "unpermitted_free st \<Longrightarrow> unpermitted_free (AssignmentExpression_visitor n st)"
  "unpermitted_free st \<Longrightarrow> unpermitted_free (ImportDeclaration_visitor n st)"
proof -
  show "unpermitted_free st \<Longrightarrow> unpermitted_free (Identifier_visitor p n st)"
    by (cases n) (simp_all add: visitor_simps Let_def unpermitted_free_updates)
  show "unpermitted_free st \<Longrightarrow> unpermitted_free (Literal_visitor n st)"
    by (cases "(n, st)" rule: Literal_visitor.cases)
       (simp_all add: visitor_simps Let_def unpermitted_free_updates)
  show "unpermitted_free st \<Longrightarrow> unpermitted_free (MemberExpression_visitor p n st)"
    by (cases n) (simp_all add: visitor_simps Let_def blocks_unpermitted_free)
  show "unpermitted_free st \<Longrightarrow> unpermitted_free (CallExpression_visitor n st)"
    by (cases n) (simp_all add: visitor_simps Let_def blocks_unpermitted_free)
  show "unpermitted_free st \<Longrightarrow> unpermitted_free (AssignmentExpression_visitor n st)"
    by (cases n) (simp_all add: visitor_simps Let_def blocks_unpermitted_free)
  show "unpermitted_free st \<Longrightarrow> unpermitted_free (ImportDeclaration_visitor n st)"
    by (cases n) (simp_all add: visitor_simps Let_def unpermitted_free_updates)
qed

lemma walk_unpermitted_free: "unpermitted_free (walk p n initial_state)"
  by (rule walk_preserves(1) [where P = unpermitted_free])
     (simp_all add: callbacks_unpermitted_free,
      simp add: unpermitted_free_def initial_state_def)

lemma checks_unpermitted_free:
  "unpermitted_free st \<Longrightarrow> unpermitted_free (check_entropy st)"
  "unpermitted_free st \<Longrightarrow> unpermitted_free (check_variable_names st)"
  by (simp_all add: check_entropy_def check_variable_names_def Let_def
        unpermitted_free_updates)

lemma truncate_fields [simp]:
  "hasEval (SecuritySignals.truncate st) = hasEval st"
  "hasDynamicCodeExecution (SecuritySignals.truncate st) = hasDynamicCodeExecution st"
  "hasNetworkAPI (SecuritySignals.truncate st) = hasNetworkAPI st"
  "hasNetworkWithoutPermission (SecuritySignals.truncate st) = hasNetworkWithoutPermission st"
  "hasDynamicURLConstruction (SecuritySignals.truncate st) = hasDynamicURLConstruction st"
  "hasObfuscatedCode (SecuritySignals.truncate st) = hasObfuscatedCode st"
  "hasGlobalVariableOverride (SecuritySignals.truncate st) = hasGlobalVariableOverride st"
  "hasStorageAccess (SecuritySignals.truncate st) = hasStorageAccess st"
  "hasNavigatorAccess (SecuritySignals.truncate st) = hasNavigatorAccess st"
  "hasDangerousDOMManipulation (SecuritySignals.truncate st) = hasDangerousDOMManipulation st"
  "entropy (SecuritySignals.truncate st) = entropy st"
  "suspiciousVariableNames (SecuritySignals.truncate st) = suspiciousVariableNames st"
  "importedPackages (SecuritySignals.truncate st) = importedPackages st"
  "referencedDomains (SecuritySignals.truncate st) = referencedDomains st"
  "detectedViolations (SecuritySignals.truncate st) = detectedViolations st"
  by (simp_all add: SecuritySignals.truncate_def)

lemma analyzeTree_before_permissions:
  "analyzeTree hostname ast perms =
     SecuritySignals.truncate (check_permissions perms (before_permissions hostname ast))"
  by (simp add: analyzeTree_def before_permissions_def Let_def)

lemma before_permissions_unpermitted_free:
  "unpermitted_free (before_permissions hostname ast)"
  by (simp add: before_permissions_def Let_def unpermitted_free_updates
        checks_unpermitted_free walk_unpermitted_free)

lemma check_permissions_rule:
  assumes "unpermitted_free st"
  shows "hasNetworkWithoutPermission (check_permissions perms st) =
           (hasNetworkAPI st
            \<and> ((\<exists>d\<in>set (referencedDomains st).
                   d \<notin> set (permitted_domains perms)
                   \<and> d \<notin> {''cdn.jsdelivr.net'', ''unpkg.com'', ''esm.sh''})
                \<or> hasDynamicURLConstruction st))"
    and "(\<exists>v\<in>set (detectedViolations (check_permissions perms st)).
            rule v = ''no-network-without-permission'') =
           hasNetworkWithoutPermission (check_permissions perms st)"
    and "\<forall>v\<in>set (detectedViolations (check_permissions perms st)).
           rule v = ''no-network-without-permission'' \<longrightarrow> location v = None"
    and "hasNetworkAPI (check_permissions perms st) = hasNetworkAPI st"
    and "hasDynamicURLConstruction (check_permissions perms st) = hasDynamicURLConstruction st"
    and "referencedDomains (check_permissions perms st) = referencedDomains st"
  using assms
  by (auto simp: check_permissions_def unpermitted_free_def push_violation_def Let_def
        list_ex_iff ALLOWED_DOMAINS_def)

subsection \<open>Flags are backed by violations\<close>

lemma justified_append:
  "justified flag rules vs \<Longrightarrow> justified flag rules (vs @ [v])"
  "rule v \<in> rules \<Longrightarrow> justified flag rules (vs @ [v])"
  "justified False rules vs"
  by (auto simp: justified_def)

lemma justified_extends:
  "extends st st' \<Longrightarrow> justified True rules (detectedViolations st)
     \<Longrightarrow> justified True rules (detectedViolations st')"
  by (auto simp: justified_def extends_def)

lemma blocks_backed:
  "backed st \<Longrightarrow> backed (call_eval n c st)"
  "backed st \<Longrightarrow> backed (call_string_timeout n c args st)"
  "backed st \<Longrightarrow> backed (call_network_api c args st)"
  "backed st \<Longrightarrow> backed (call_websocket c args st)"
  "backed st \<Longrightarrow> backed (call_sendBeacon n callee st)"
  "backed st \<Longrightarrow> backed (call_insertAdjacentHTML n c st)"
  "backed st \<Longrightarrow> backed (call_createElement n c callee args st)"
  "backed st \<Longrightarrow> backed (call_obfuscation n c st)"
  "backed st \<Longrightarrow> backed (call_fromCharCode n callee st)"
  "backed st \<Longrightarrow> backed (call_storage_listener n callee args st)"
  "backed st \<Longrightarrow> backed (assign_prototype n left st)"
  "backed st \<Longrightarrow> backed (assign_onstorage n left st)"
  "backed st \<Longrightarrow> backed (member_storage n objectName st)"
  "backed st \<Longrightarrow> backed (member_cookie n objectName propertyName st)"
  "backed st \<Longrightarrow> backed (member_indexedDB n objectName st)"
  "backed st \<Longrightarrow> backed (member_navigator n objectName propertyName st)"
  "backed st \<Longrightarrow> backed (member_html parent n propertyName st)"
  "backed st \<Longrightarrow> backed (member_document_head n objectName propertyName st)"
  by (simp_all add: block_defs Let_def backed_def push_violation_def justified_append
        split: option.splits)

lemma assign_global_backed:
  assumes "backed st"
    and "member_object_name left = Some ''navigator''
           \<Longrightarrow> justified True {''no-navigator-access''} (detectedViolations st)"
  shows "backed (assign_global n left st)"
  using assms
  by (simp add: assign_global_def Let_def backed_def push_violation_def justified_append
        split: option.splits)

lemma callbacks_backed:
  "backed st \<Longrightarrow> backed (Identifier_visitor p n st)"
  "backed st \<Longrightarrow> backed (Literal_visitor n st)"
  "backed st \<Longrightarrow> backed (MemberExpression_visitor p n st)"
  "backed st \<Longrightarrow> backed (CallExpression_visitor n st)"
  "backed st \<Longrightarrow> backed (ImportDeclaration_visitor n st)"
proof -
  show "backed st \<Longrightarrow> backed (Identifier_visitor p n st)"
    by (cases n)
       (simp_all add: visitor_simps Let_def backed_def push_violation_def justified_append)
  show "backed st \<Longrightarrow> backed (Literal_visitor n st)"
    by (cases "(n, st)" rule: Literal_visitor.cases)
       (simp_all add: visitor_simps Let_def backed_def push_violation_def justified_append)
  show "backed st \<Longrightarrow> backed (MemberExpression_visitor p n st)"
    by (cases n) (simp_all add: visitor_simps Let_def blocks_backed)
  show "backed st \<Longrightarrow> backed (CallExpression_visitor n st)"
    by (cases n) (simp_all add: visitor_simps Let_def blocks_backed)
  show "backed st \<Longrightarrow> backed (ImportDeclaration_visitor n st)"
    by (cases n)
       (simp_all add: visitor_simps Let_def backed_def push_violation_def justified_append)
qed

lemma walk_member_navigator:
  assumes "member_object_name n = Some ''navigator''"
  shows "justified True {''no-navigator-access''} (detectedViolations (walk p n st))"
proof (cases n)
  case (MemberExpression l obj prp computed)
  with assms have obj: "identifierName obj = Some ''navigator''" by simp
  define st' where
    "st' = (let s = walk ObjectOfMember obj st in if computed then walk NoLink prp s else s)"
  define s1 where
    "s1 = member_indexedDB n (Some ''navigator'') (member_cookie n (Some ''navigator'')
            (identifierName prp) (member_storage n (Some ''navigator'') st'))"
  define s2 where "s2 = member_navigator n (Some ''navigator'') (identifierName prp) s1"
  have "justified True {''no-navigator-access''} (detectedViolations s2)"
    by (simp add: s2_def member_navigator_def push_violation_def justified_append)
  moreover have "extends s2 (member_document_head n (Some ''navigator'') (identifierName prp)
                   (member_html p n (identifierName prp) s2))"
    by (intro blocks_extend extends_refl)
  moreover have "walk p n st =
                   member_document_head n (Some ''navigator'') (identifierName prp)
                     (member_html p n (identifierName prp) s2)"
    by (simp add: MemberExpression visitor_simps Let_def obj s2_def s1_def st'_def)
  ultimately show ?thesis
    by (simp add: justified_extends)
qed (use assms in simp_all)

lemma assignment_backed:
  assumes "backed (walk NoLink right (walk_pattern LeftOfAssignment left st))"
  shows "backed (AssignmentExpression_visitor (AssignmentExpression l left right)
                   (walk NoLink right (walk_pattern LeftOfAssignment left st)))"
proof -
  let ?st = "walk NoLink right (walk_pattern LeftOfAssignment left st)"
  have nav: "justified True {''no-navigator-access''} (detectedViolations ?st)"
    if "member_object_name left = Some ''navigator''"
  proof -
    from that have "walk_pattern LeftOfAssignment left st = walk LeftOfAssignment left st"
      by (cases left) (simp_all add: walk_pattern_def del: walk.simps)
    with that have
      "justified True {''no-navigator-access''}
         (detectedViolations (walk_pattern LeftOfAssignment left st))"
      by (simp add: walk_member_navigator del: walk.simps)
    then show ?thesis
      by (rule justified_extends [OF walk_extends])
  qed
  have "backed (assign_global (AssignmentExpression l left right) left ?st)"
    using assms nav by (rule assign_global_backed)
  then show ?thesis
    by (simp add: visitor_simps Let_def blocks_backed del: walk.simps)
qed

lemma walk_backed: "backed (walk p n initial_state)"
proof (rule walk_preserves(1) [where P = backed])
  show "backed initial_state"
    by (simp add: backed_def initial_state_def justified_append)
qed (simp_all add: callbacks_backed assignment_backed del: walk.simps)

lemma checks_backed:
  "backed st \<Longrightarrow> backed (check_entropy st)"
  "backed st \<Longrightarrow> backed (check_variable_names st)"
  "backed st \<Longrightarrow> backed (st\<lparr>referencedDomains := ds\<rparr>)"
  "backed st \<Longrightarrow> backed (check_permissions perms st)"
  by (simp_all add: check_entropy_def check_variable_names_def check_permissions_def
        Let_def backed_def push_violation_def justified_append)

lemma analyzeTree_backed: "backed (analyzeTree hostname ast perms)"
proof -
  have "backed (check_permissions perms (before_permissions hostname ast))"
    by (simp add: before_permissions_def Let_def checks_backed walk_backed del: walk.simps)
  then show ?thesis
    by (simp add: analyzeTree_before_permissions backed_def)
qed

subsection \<open>Assignments to a prototype are reached\<close>

lemma polluted_extends: "extends st st' \<Longrightarrow> polluted st \<Longrightarrow> polluted st'"
  by (auto simp: polluted_def extends_def)

lemma walk_others_extend:
  "extends st (walk_nodes ns st)"
  "extends st (walk_child c st)"
  "extends st (walk_children cs st)"
proof -
  show "extends st (walk_nodes ns st)"
    by (rule walk_preserves(2) [where P = "extends st"])
       (simp_all add: callbacks_extend extends_refl del: walk.simps)
  show "extends st (walk_child c st)"
    by (rule walk_preserves(3) [where P = "extends st"])
       (simp_all add: callbacks_extend extends_refl del: walk.simps)
  show "extends st (walk_children cs st)"
    by (rule walk_preserves(4) [where P = "extends st"])
       (simp_all add: callbacks_extend extends_refl del: walk.simps)
qed

lemma polluted_kept:
  "polluted st \<Longrightarrow> polluted (walk p n st)"
  "polluted st \<Longrightarrow> polluted (walk_nodes ns st)"
  "polluted st \<Longrightarrow> polluted (walk_children cs st)"
  "polluted st \<Longrightarrow> polluted (MemberExpression_visitor p n st)"
  "polluted st \<Longrightarrow> polluted (CallExpression_visitor n st)"
  "polluted st \<Longrightarrow> polluted (AssignmentExpression_visitor n st)"
  by (erule polluted_extends [rotated],
      rule walk_extends walk_others_extend callbacks_extend [OF extends_refl])+

lemma prototype_assignment_polluted:
  "is_prototype_member left
   \<Longrightarrow> polluted (AssignmentExpression_visitor (AssignmentExpression l left right) st)"
proof -
  assume "is_prototype_member left"
  then have "polluted (assign_prototype (AssignmentExpression l left right) left
               (assign_global (AssignmentExpression l left right) left st))"
    by (simp add: assign_prototype_def polluted_def push_violation_def)
  then have "polluted (assign_onstorage (AssignmentExpression l left right) left
               (assign_prototype (AssignmentExpression l left right) left
                 (assign_global (AssignmentExpression l left right) left st)))"
    by (rule polluted_extends [OF blocks_extend(13) [OF extends_refl]])
  then show ?thesis
    by (simp add: visitor_simps Let_def)
qed

lemma walk_reaches_assignment:
  assumes proto: "is_prototype_member left"
  shows "AssignmentExpression l left right \<in> set (visited n) \<Longrightarrow> polluted (walk p n st)"
    and "AssignmentExpression l left right \<in> set (visited_nodes ns)
           \<Longrightarrow> polluted (walk_nodes ns st)"
    and "AssignmentExpression l left right \<in> set (visited_child c)
           \<Longrightarrow> polluted (walk_child c st)"
    and "AssignmentExpression l left right \<in> set (visited_children cs)
           \<Longrightarrow> polluted (walk_children cs st)"
proof (induction p n st and ns st and c st and cs st
       rule: walk_walk_nodes_walk_child_walk_children.induct)
  case (3 parent l' obj prp computed st)
  then show ?case
    by (auto simp: Let_def polluted_kept split: if_splits)
next
  case (4 parent l' callee args st)
  then show ?case
    by (auto simp: Let_def polluted_kept)
next
  case (5 parent l' left' right' st)
  let ?a = "AssignmentExpression l left right"
  let ?st1 = "walk_pattern LeftOfAssignment left' st"
  consider (self) "?a = AssignmentExpression l' left' right'"
    | (in_left) "?a \<in> set (case left' of Identifier _ _ \<Rightarrow> [] | _ \<Rightarrow> visited left')"
    | (in_right) "?a \<in> set (visited right')"
    using "5.prems" by auto
  then have "polluted (AssignmentExpression_visitor (AssignmentExpression l' left' right')
                         (walk NoLink right' ?st1))"
  proof cases
    case self
    then show ?thesis using proto by (simp add: prototype_assignment_polluted del: walk.simps)
  next
    case in_left
    then have "polluted ?st1"
      using "5.IH"(1-6) by (cases left') (simp_all add: walk_pattern_def del: walk.simps)
    then show ?thesis by (simp add: polluted_kept del: walk.simps)
  next
    case in_right
    then have "polluted (walk NoLink right' ?st1)"
      unfolding walk_pattern_def by (rule "5.IH"(7) [OF refl])
    then show ?thesis by (simp add: polluted_kept del: walk.simps)
  qed
  then show ?case by (simp only: walk_assignment)
next
  case (9 n ns st)
  then show ?case by (auto simp: polluted_kept)
next
  case (11 n st)
  then show ?case by (cases n) (simp_all del: walk.simps)
next
  case (13 c cs st)
  then show ?case by (auto simp: polluted_kept polluted_extends [OF walk_others_extend(2)])
qed (simp_all add: visitor_simps)

lemma checks_extend:
  "extends st (check_entropy st)"
  "extends st (check_variable_names st)"
  "extends st (st\<lparr>referencedDomains := ds\<rparr>)"
  "extends st (check_permissions perms st)"
  by (simp_all add: check_entropy_def check_variable_names_def check_permissions_def
        Let_def extends_def push_violation_def subset_iff)

lemma analyzeTree_polluted:
  assumes "polluted (walk NoLink ast initial_state)"
  shows "polluted (analyzeTree hostname ast perms)"
proof -
  let ?st1 = "check_entropy (walk NoLink ast initial_state)"
  let ?st2 = "check_variable_names ?st1"
  have "polluted ?st2"
    using assms by (intro polluted_extends [OF checks_extend(2)] polluted_extends [OF checks_extend(1)])
  then have "polluted (before_permissions hostname ast)"
    unfolding before_permissions_def Let_def by (rule polluted_extends [OF checks_extend(3)])
  then have "polluted (check_permissions perms (before_permissions hostname ast))"
    by (rule polluted_extends [OF checks_extend(4)])
  then show ?thesis
    by (simp add: analyzeTree_before_permissions polluted_def)
qed

lemma override_scores_100:
  "hasGlobalVariableOverride s \<Longrightarrow> calculateSecurityScore s = 100"
  by (simp add: calculateSecurityScore_def)

section \<open>Evaluating the example programs\<close>

lemmas walk_eval_defs =
  program_of_def block_defs push_violation_def visitor_simps initial_state_def
  createViolation_def getLocation_def

lemmas post_eval_defs =
  check_entropy_def check_variable_names_def check_permissions_def permitted_domains_def
  extractDomains_def calculateAverageEntropy_def ENTROPY_THRESHOLD_def List.map_filter_def
  ALLOWED_DOMAINS_def example_hostname_def push_violation_def createViolation_def
  initial_state_def Let_def

lemma websocket_dynamic_walk:
  "walk NoLink websocket_dynamic initial_state =
     initial_state\<lparr>hasNetworkAPI := True, variableNames := [''WebSocket'', ''url'']\<rparr>"
  by (simp add: websocket_dynamic_def walk_eval_defs)

lemma fetch_dynamic_walk:
  "walk NoLink fetch_dynamic initial_state =
     initial_state\<lparr>hasNetworkAPI := True, hasDynamicURLConstruction := True,
                    variableNames := [''fetch'', ''url'']\<rparr>"
  by (simp add: fetch_dynamic_def walk_eval_defs)

lemma fetch_cdn_walk:
  "walk NoLink fetch_cdn initial_state =
     initial_state\<lparr>hasNetworkAPI := True, urlStrings := [''https://esm.sh/x''],
                    stringLiterals := [''https://esm.sh/x''], variableNames := [''fetch'']\<rparr>"
  by (simp add: fetch_cdn_def walk_eval_defs isHexDigit_def)

lemma innerHTML_assignment_walk:
  "walk NoLink innerHTML_assignment initial_state =
     initial_state\<lparr>hasDangerousDOMManipulation := True,
       detectedViolations :=
         [\<lparr>rule = ''no-dangerous-dom'', severity = Critical,
           message = MsgHtmlAssignment ''innerHTML'',
           location = Some \<lparr>line = 1, column = 0, snippet = ''(code snippet)''\<rparr>\<rparr>],
       variableNames := [''el'', ''html'']\<rparr>"
  by (simp add: innerHTML_assignment_def walk_eval_defs)

lemma prototype_assignment_walk:
  "walk NoLink (program_of [prototype_assignment]) initial_state =
     initial_state\<lparr>hasGlobalVariableOverride := True,
       detectedViolations :=
         [\<lparr>rule = ''no-prototype-pollution'', severity = Critical,
           message = MsgPrototypePollution,
           location = Some \<lparr>line = 1, column = 0, snippet = ''(code snippet)''\<rparr>\<rparr>],
       variableNames := [''Object'']\<rparr>"
  by (simp add: prototype_assignment_def walk_eval_defs)

lemma navigator_assignment_walk:
  "walk NoLink navigator_assignment initial_state =
     initial_state\<lparr>hasGlobalVariableOverride := True, hasNavigatorAccess := True,
       detectedViolations :=
         [\<lparr>rule = ''no-navigator-access'', severity = Critical,
           message = MsgNavigatorMember ''a'',
           location = Some \<lparr>line = 1, column = 0, snippet = ''(code snippet)''\<rparr>\<rparr>,
          \<lparr>rule = ''no-global-override'', severity = Critical,
           message = MsgGlobalOverride ''navigator'',
           location = Some \<lparr>line = 1, column = 0, snippet = ''(code snippet)''\<rparr>\<rparr>],
       variableNames := [''navigator'']\<rparr>"
  by (simp add: navigator_assignment_def walk_eval_defs)

lemma eval_atob_storage_walk:
  "walk NoLink eval_atob_storage initial_state =
     initial_state\<lparr>hasEval := True, hasObfuscatedCode := True, hasStorageAccess := True,
       detectedViolations :=
         [\<lparr>rule = ''no-storage-access'', severity = Critical,
           message = MsgStorageAccess ''localStorage'',
           location = Some \<lparr>line = 1, column = 10, snippet = ''(code snippet)''\<rparr>\<rparr>,
          \<lparr>rule = ''no-obfuscation'', severity = Critical,
           message = MsgObfuscationCall ''atob'',
           location = Some \<lparr>line = 1, column = 5, snippet = ''(code snippet)''\<rparr>\<rparr>,
          \<lparr>rule = ''no-eval'', severity = Critical, message = MsgEval,
           location = Some \<lparr>line = 1, column = 0, snippet = ''(code snippet)''\<rparr>\<rparr>],
       variableNames := [''eval'', ''atob'', ''localStorage'']\<rparr>"
  by (simp add: eval_atob_storage_def walk_eval_defs)

lemma string_timeout_walk:
  "walk NoLink string_timeout initial_state =
     initial_state\<lparr>hasDynamicCodeExecution := True,
       detectedViolations :=
         [\<lparr>rule = ''no-string-timeout'', severity = Critical,
           message = MsgStringTimeout ''setTimeout'',
           location = Some \<lparr>line = 1, column = 0, snippet = ''(code snippet)''\<rparr>\<rparr>],
       stringLiterals := [''a''], variableNames := [''setTimeout'']\<rparr>"
  by (simp add: string_timeout_def walk_eval_defs)

lemma websocket_dynamic_result:
  "analyzeTree example_hostname websocket_dynamic None =
     SecuritySignals.truncate
       (initial_state\<lparr>hasNetworkAPI := True\<rparr>)"
  unfolding analyzeTree_before_permissions before_permissions_def websocket_dynamic_walk
  by (simp add: post_eval_defs SecuritySignals.truncate_def)

lemma fetch_dynamic_result:
  "analyzeTree example_hostname fetch_dynamic None =
     SecuritySignals.truncate
       (initial_state\<lparr>hasNetworkAPI := True, hasDynamicURLConstruction := True,
          hasNetworkWithoutPermission := True,
          detectedViolations :=
            [\<lparr>rule = ''no-network-without-permission'', severity = Critical,
              message = MsgNetworkPermission, location = None\<rparr>]\<rparr>)"
  unfolding analyzeTree_before_permissions before_permissions_def fetch_dynamic_walk
  by (simp add: post_eval_defs SecuritySignals.truncate_def)

lemma fetch_cdn_result:
  "analyzeTree example_hostname fetch_cdn None =
     SecuritySignals.truncate
       (initial_state\<lparr>hasNetworkAPI := True, referencedDomains := [''esm.sh'']\<rparr>)"
  unfolding analyzeTree_before_permissions before_permissions_def fetch_cdn_walk
  by (simp add: post_eval_defs SecuritySignals.truncate_def)

lemma innerHTML_assignment_result:
  "analyzeTree example_hostname innerHTML_assignment None =
     SecuritySignals.truncate
       (initial_state\<lparr>hasDangerousDOMManipulation := True,
          detectedViolations :=
            [\<lparr>rule = ''no-dangerous-dom'', severity = Critical,
              message = MsgHtmlAssignment ''innerHTML'',
              location = Some \<lparr>line = 1, column = 0, snippet = ''(code snippet)''\<rparr>\<rparr>]\<rparr>)"
  unfolding analyzeTree_before_permissions before_permissions_def innerHTML_assignment_walk
  by (simp add: post_eval_defs SecuritySignals.truncate_def)

lemma prototype_assignment_result:
  "analyzeTree example_hostname (program_of [prototype_assignment]) None =
     SecuritySignals.truncate
       (initial_state\<lparr>hasGlobalVariableOverride := True,
          detectedViolations :=
            [\<lparr>rule = ''no-prototype-pollution'', severity = Critical,
              message = MsgPrototypePollution,
              location = Some \<lparr>line = 1, column = 0, snippet = ''(code snippet)''\<rparr>\<rparr>]\<rparr>)"
  unfolding analyzeTree_before_permissions before_permissions_def prototype_assignment_walk
  by (simp add: post_eval_defs SecuritySignals.truncate_def)

lemma navigator_assignment_flags:
  "hasGlobalVariableOverride (analyzeTree example_hostname navigator_assignment None)"
  "hasNavigatorAccess (analyzeTree example_hostname navigator_assignment None)"
  unfolding analyzeTree_before_permissions before_permissions_def navigator_assignment_walk
  by (simp_all add: post_eval_defs)

lemma eval_atob_storage_flags:
  "hasEval (analyzeTree example_hostname eval_atob_storage None)"
  "hasObfuscatedCode (analyzeTree example_hostname eval_atob_storage None)"
  "hasStorageAccess (analyzeTree example_hostname eval_atob_storage None)"
  unfolding analyzeTree_before_permissions before_permissions_def eval_atob_storage_walk
  by (simp_all add: post_eval_defs)

lemma string_timeout_flags:
  "hasDynamicCodeExecution (analyzeTree example_hostname string_timeout None)"
  unfolding analyzeTree_before_permissions before_permissions_def string_timeout_walk
  by (simp_all add: post_eval_defs)

section \<open>The score and the verdict\<close>

lemma score_le_100: "calculateSecurityScore s \<le> 100"
  by (simp add: calculateSecurityScore_def Let_def)

lemma score_ge_0: "0 \<le> calculateSecurityScore s"
  by (simp add: calculateSecurityScore_def Let_def)

lemma score_short_flags:
  "calculateSecurityScore (s\<lparr>hasEval := True\<rparr>) = 100"
  "calculateSecurityScore (s\<lparr>hasDynamicCodeExecution := True\<rparr>) = 100"
  "calculateSecurityScore (s\<lparr>hasNetworkWithoutPermission := True\<rparr>) = 100"
  "calculateSecurityScore (s\<lparr>hasGlobalVariableOverride := True\<rparr>) = 100"
  "calculateSecurityScore (s\<lparr>hasStorageAccess := True\<rparr>) = 100"
  "calculateSecurityScore (s\<lparr>hasNavigatorAccess := True\<rparr>) = 100"
  "calculateSecurityScore (s\<lparr>hasDangerousDOMManipulation := True\<rparr>) = 100"
  "calculateSecurityScore (s\<lparr>hasObfuscatedCode := True\<rparr>) = 100"
  by (simp_all add: calculateSecurityScore_def)

lemma score_mono_networkAPI:
  "calculateSecurityScore s \<le> calculateSecurityScore (s\<lparr>hasNetworkAPI := True\<rparr>)"
  by (auto simp: calculateSecurityScore_def Let_def)

lemma score_mono_dynamicURL:
  "calculateSecurityScore s \<le> calculateSecurityScore (s\<lparr>hasDynamicURLConstruction := True\<rparr>)"
  by (auto simp: calculateSecurityScore_def Let_def)

lemma score_mono_suspicious:
  "calculateSecurityScore s \<le> calculateSecurityScore (s\<lparr>suspiciousVariableNames := True\<rparr>)"
  by (auto simp: calculateSecurityScore_def Let_def)

lemma score_mono_entropy:
  "ENTROPY_THRESHOLD < e \<Longrightarrow>
   calculateSecurityScore s \<le> calculateSecurityScore (s\<lparr>entropy := e\<rparr>)"
  by (auto simp: calculateSecurityScore_def Let_def)

lemma score_mono_package:
  "calculateSecurityScore s
     \<le> calculateSecurityScore (s\<lparr>importedPackages := importedPackages s @ [p]\<rparr>)"
  by (auto simp: calculateSecurityScore_def Let_def unknownPackages_def)

lemma score_mono_domain:
  "calculateSecurityScore s
     \<le> calculateSecurityScore (s\<lparr>referencedDomains := referencedDomains s @ [d]\<rparr>)"
  by (auto simp: calculateSecurityScore_def Let_def)

text \<open>
  C2: when at least one of the eight flags hasEval, hasDynamicCodeExecution,
  hasNetworkWithoutPermission, hasGlobalVariableOverride, hasStorageAccess,
  hasNavigatorAccess, hasDangerousDOMManipulation, hasObfuscatedCode is set, the score
  is exactly 100, whatever the other fields of the record hold.
\<close>

theorem score_short_circuit:
  "hasEval s \<or> hasDynamicCodeExecution s \<or> hasNetworkWithoutPermission s
     \<or> hasGlobalVariableOverride s \<or> hasStorageAccess s \<or> hasNavigatorAccess s
     \<or> hasDangerousDOMManipulation s \<or> hasObfuscatedCode s
   \<Longrightarrow> calculateSecurityScore s = 100"
  by (auto simp: calculateSecurityScore_def)

theorem score_short_circuit_witness:
  "hasObfuscatedCode (quiet_signals\<lparr>hasObfuscatedCode := True\<rparr>)
   \<and> calculateSecurityScore (quiet_signals\<lparr>hasObfuscatedCode := True\<rparr>) = 100
   \<and> calculateSecurityScore quiet_signals = 45"
  using score_short_circuit [of "quiet_signals\<lparr>hasObfuscatedCode := True\<rparr>"]
  by (simp add: quiet_signals_def calculateSecurityScore_def unknownPackages_def
        ALLOWED_PACKAGES_def startsWith_def ENTROPY_THRESHOLD_def)

text \<open>
  C3: the verdict is REJECT for a score of 70 or more, REVIEW for a score from 50 to 69,
  APPROVE for a score below 50; so 50 gives REVIEW, 49 APPROVE, 70 REJECT and 69 REVIEW.
\<close>

theorem verdict_thresholds:
  "(70 \<le> score \<longrightarrow> getSecurityVerdict score = REJECT)
   \<and> (50 \<le> score \<and> score < 70 \<longrightarrow> getSecurityVerdict score = REVIEW)
   \<and> (score < 50 \<longrightarrow> getSecurityVerdict score = APPROVE)
   \<and> getSecurityVerdict 50 = REVIEW \<and> getSecurityVerdict 49 = APPROVE
   \<and> getSecurityVerdict 70 = REJECT \<and> getSecurityVerdict 69 = REVIEW"
  by (simp add: getSecurityVerdict_def)

theorem verdict_thresholds_witness:
  "((70::int) \<le> 100 \<and> getSecurityVerdict 100 = REJECT)
   \<and> ((50::int) \<le> 60 \<and> (60::int) < 70 \<and> getSecurityVerdict 60 = REVIEW)
   \<and> ((0::int) < 50 \<and> getSecurityVerdict 0 = APPROVE)"
  using verdict_thresholds [of 100] verdict_thresholds [of 60] verdict_thresholds [of 0]
  by simp

text \<open>
  C4: the score lies between 0 and 100, and it does not decrease when one risk signal
  is added: a boolean flag set, the entropy raised above the threshold, a package or a
  domain appended.
\<close>

theorem score_monotone_bounded:
  fixes s :: SecuritySignals
  shows "0 \<le> calculateSecurityScore s \<and> calculateSecurityScore s \<le> 100
   \<and> calculateSecurityScore s \<le> calculateSecurityScore (s\<lparr>hasEval := True\<rparr>)
   \<and> calculateSecurityScore s \<le> calculateSecurityScore (s\<lparr>hasDynamicCodeExecution := True\<rparr>)
   \<and> calculateSecurityScore s \<le> calculateSecurityScore (s\<lparr>hasNetworkAPI := True\<rparr>)
   \<and> calculateSecurityScore s \<le> calculateSecurityScore (s\<lparr>hasNetworkWithoutPermission := True\<rparr>)
   \<and> calculateSecurityScore s \<le> calculateSecurityScore (s\<lparr>hasDynamicURLConstruction := True\<rparr>)
   \<and> calculateSecurityScore s \<le> calculateSecurityScore (s\<lparr>hasObfuscatedCode := True\<rparr>)
   \<and> calculateSecurityScore s \<le> calculateSecurityScore (s\<lparr>hasGlobalVariableOverride := True\<rparr>)
   \<and> calculateSecurityScore s \<le> calculateSecurityScore (s\<lparr>hasStorageAccess := True\<rparr>)
   \<and> calculateSecurityScore s \<le> calculateSecurityScore (s\<lparr>hasNavigatorAccess := True\<rparr>)
   \<and> calculateSecurityScore s \<le> calculateSecurityScore (s\<lparr>hasDangerousDOMManipulation := True\<rparr>)
   \<and> calculateSecurityScore s \<le> calculateSecurityScore (s\<lparr>suspiciousVariableNames := True\<rparr>)
   \<and> (entropy s \<le> ENTROPY_THRESHOLD \<and> ENTROPY_THRESHOLD < e
        \<longrightarrow> calculateSecurityScore s \<le> calculateSecurityScore (s\<lparr>entropy := e\<rparr>))
   \<and> calculateSecurityScore s
        \<le> calculateSecurityScore (s\<lparr>importedPackages := importedPackages s @ [p]\<rparr>)
   \<and> calculateSecurityScore s
        \<le> calculateSecurityScore (s\<lparr>referencedDomains := referencedDomains s @ [d]\<rparr>)"
  using score_le_100 [of s] score_ge_0 [of s] score_short_flags [of s]
    score_mono_networkAPI [of s] score_mono_dynamicURL [of s] score_mono_suspicious [of s]
    score_mono_entropy [of e s] score_mono_package [of s p] score_mono_domain [of s d]
  by simp

theorem score_monotone_bounded_witness:
  "entropy quiet_signals \<le> ENTROPY_THRESHOLD \<and> ENTROPY_THRESHOLD < 7.5
   \<and> calculateSecurityScore quiet_signals \<le> calculateSecurityScore (quiet_signals\<lparr>entropy := 7.5\<rparr>)
   \<and> calculateSecurityScore quiet_signals = 45
   \<and> calculateSecurityScore (quiet_signals\<lparr>entropy := 7.5\<rparr>) = 60"
  using score_monotone_bounded [of quiet_signals "7.5" "''lodash''" "''unpkg.com''"]
  by (simp add: quiet_signals_def calculateSecurityScore_def unknownPackages_def
        ALLOWED_PACKAGES_def startsWith_def ENTROPY_THRESHOLD_def)

lemma score_domain_term:
  assumes "\<not> hasEval s" "\<not> hasDynamicCodeExecution s" "\<not> hasNetworkWithoutPermission s"
    "\<not> hasGlobalVariableOverride s" "\<not> hasStorageAccess s" "\<not> hasNavigatorAccess s"
    "\<not> hasDangerousDOMManipulation s" "\<not> hasObfuscatedCode s"
  shows "calculateSecurityScore s =
           min 100 (calculateSecurityScore (s\<lparr>referencedDomains := []\<rparr>)
                    + 25 * int (length (referencedDomains s)))"
  using assms by (simp add: calculateSecurityScore_def Let_def)

lemma check_entropy_urlStrings: "urlStrings (check_entropy st) = urlStrings st"
  by (simp add: check_entropy_def push_violation_def Let_def)

lemma check_variable_names_urlStrings: "urlStrings (check_variable_names st) = urlStrings st"
  by (simp add: check_variable_names_def push_violation_def Let_def)

lemma check_permissions_domains: "referencedDomains (check_permissions p st) = referencedDomains st"
  by (simp add: check_permissions_def push_violation_def Let_def)

lemma analyzeTree_domains:
  "referencedDomains (analyzeTree hostname ast perms) =
     extractDomains hostname (urlStrings (walk NoLink ast initial_state))"
  by (simp add: analyzeTree_def Let_def SecuritySignals.truncate_def
        check_permissions_domains check_variable_names_urlStrings check_entropy_urlStrings)

text \<open>
  C7: when no short-circuit flag is set, the score is the score without referenced
  domains plus 25 for every entry of referencedDomains, clamped to 100. The score reads
  no allow-list; the domains it counts are all the hostnames extracted from the captured
  URLs, whatever permissions the analysis was given.
\<close>

theorem score_counts_every_domain:
  assumes "\<not> hasEval s" "\<not> hasDynamicCodeExecution s" "\<not> hasNetworkWithoutPermission s"
    "\<not> hasGlobalVariableOverride s" "\<not> hasStorageAccess s" "\<not> hasNavigatorAccess s"
    "\<not> hasDangerousDOMManipulation s" "\<not> hasObfuscatedCode s"
  shows "calculateSecurityScore s =
           min 100 (calculateSecurityScore (s\<lparr>referencedDomains := []\<rparr>)
                    + 25 * int (length (referencedDomains s)))
         \<and> referencedDomains (analyzeTree hostname ast perms) =
             extractDomains hostname (urlStrings (walk NoLink ast initial_state))"
  using score_domain_term [OF assms] analyzeTree_domains [of hostname ast perms]
  by (rule conjI)

theorem score_counts_every_domain_witness:
  "\<not> hasNetworkWithoutPermission (analyzeTree example_hostname fetch_cdn None)
   \<and> referencedDomains (analyzeTree example_hostname fetch_cdn None) = [''esm.sh'']
   \<and> ''esm.sh'' \<in> set ALLOWED_DOMAINS
   \<and> calculateSecurityScore (analyzeTree example_hostname fetch_cdn None) = 25"
proof -
  let ?r = "analyzeTree example_hostname fetch_cdn None"
  have flags: "\<not> hasEval ?r" "\<not> hasDynamicCodeExecution ?r"
    "\<not> hasNetworkWithoutPermission ?r" "\<not> hasGlobalVariableOverride ?r"
    "\<not> hasStorageAccess ?r" "\<not> hasNavigatorAccess ?r"
    "\<not> hasDangerousDOMManipulation ?r" "\<not> hasObfuscatedCode ?r"
    by (simp_all add: fetch_cdn_result initial_state_def)
  have domains: "referencedDomains ?r = [''esm.sh'']"
    by (simp add: fetch_cdn_result)
  have without: "calculateSecurityScore (?r\<lparr>referencedDomains := []\<rparr>) = 0"
    by (simp add: fetch_cdn_result calculateSecurityScore_def initial_state_def
          unknownPackages_def ENTROPY_THRESHOLD_def SecuritySignals.truncate_def)
  have "calculateSecurityScore ?r =
          min 100 (calculateSecurityScore (?r\<lparr>referencedDomains := []\<rparr>)
                   + 25 * int (length (referencedDomains ?r)))"
    using score_counts_every_domain [OF flags] by (rule conjunct1)
  then have "calculateSecurityScore ?r = 25"
    by (simp add: without domains)
  with flags(3) domains show ?thesis
    by (simp add: ALLOWED_DOMAINS_def)
qed

section \<open>The severity adjustment\<close>

text \<open>
  C8: for user code, and for a file whose name contains the infra-import marker, the
  severity is returned unchanged. Otherwise, in a shared-library, bundled-dependency or
  entry-point context, the six technical rules give warning, the three always-critical
  rules give critical, and every other rule keeps its severity.
\<close>

theorem adjust_severity_table:
  "(isUserCode ctx \<or> str_includes (filePath ctx) ''__federation_fn_import''
      \<longrightarrow> adjustViolationSeverity r sev ctx = sev)
   \<and> (\<not> isUserCode ctx \<and> \<not> str_includes (filePath ctx) ''__federation_fn_import''
        \<and> (isSharedLibrary ctx \<or> isBundledDependency ctx \<or> filePath ctx = ''remoteEntry.js'')
      \<longrightarrow> (r \<in> {''no-obfuscation'', ''no-dangerous-dom'', ''no-navigator-access'',
                 ''no-prototype-pollution'', ''no-global-override'',
                 ''no-network-without-permission''}
             \<longrightarrow> adjustViolationSeverity r sev ctx = Warning)
          \<and> (r \<in> {''no-eval'', ''no-storage-access'', ''no-storage-event''}
             \<longrightarrow> adjustViolationSeverity r sev ctx = Critical)
          \<and> (r \<notin> {''no-obfuscation'', ''no-dangerous-dom'', ''no-navigator-access'',
                 ''no-prototype-pollution'', ''no-global-override'',
                 ''no-network-without-permission'', ''no-eval'', ''no-storage-access'',
                 ''no-storage-event''}
             \<longrightarrow> adjustViolationSeverity r sev ctx = sev))"
  by (auto simp: adjustViolationSeverity_def Let_def technicalViolations_def
        criticalViolations_def)

theorem adjust_severity_table_witness:
  "isUserCode user_code_context
   \<and> adjustViolationSeverity ''no-dangerous-dom'' Critical user_code_context = Critical
   \<and> \<not> isUserCode shared_library_context
   \<and> \<not> str_includes (filePath shared_library_context) ''__federation_fn_import''
   \<and> isSharedLibrary shared_library_context
   \<and> adjustViolationSeverity ''no-dangerous-dom'' Critical shared_library_context = Warning
   \<and> adjustViolationSeverity ''no-eval'' Warning shared_library_context = Critical
   \<and> adjustViolationSeverity ''no-external-import'' Critical shared_library_context = Critical"
  using adjust_severity_table [of user_code_context "''no-dangerous-dom''" Critical]
    adjust_severity_table [of shared_library_context "''no-dangerous-dom''" Critical]
    adjust_severity_table [of shared_library_context "''no-eval''" Warning]
    adjust_severity_table [of shared_library_context "''no-external-import''" Critical]
  by (simp add: user_code_context_def shared_library_context_def startsWith_def)

section \<open>The network calls\<close>

text \<open>
  C5, at the program \<^verbatim>\<open>WebSocket(url)\<close>: the call sets hasNetworkAPI, and although its
  first argument is not a string literal, hasDynamicURLConstruction stays unset, no
  violation is raised and the score is 0. The same call to \<^verbatim>\<open>fetch\<close> sets
  hasDynamicURLConstruction, which raises the permission rule and a score of 100.
\<close>

theorem websocket_dynamic_url_not_flagged:
  "hasNetworkAPI (analyzeTree example_hostname websocket_dynamic None)
   \<and> \<not> hasDynamicURLConstruction (analyzeTree example_hostname websocket_dynamic None)
   \<and> \<not> hasNetworkWithoutPermission (analyzeTree example_hostname websocket_dynamic None)
   \<and> detectedViolations (analyzeTree example_hostname websocket_dynamic None) = []
   \<and> calculateSecurityScore (analyzeTree example_hostname websocket_dynamic None) = 0
   \<and> hasNetworkAPI (analyzeTree example_hostname fetch_dynamic None)
   \<and> hasDynamicURLConstruction (analyzeTree example_hostname fetch_dynamic None)
   \<and> hasNetworkWithoutPermission (analyzeTree example_hostname fetch_dynamic None)
   \<and> calculateSecurityScore (analyzeTree example_hostname fetch_dynamic None) = 100"
  by (simp add: websocket_dynamic_result fetch_dynamic_result calculateSecurityScore_def
        initial_state_def unknownPackages_def ENTROPY_THRESHOLD_def)



section \<open>The flags and their violations\<close>

text \<open>
  C9: in the result of an analysis, each of the flags hasEval, hasDynamicCodeExecution,
  hasNetworkWithoutPermission, hasObfuscatedCode, hasGlobalVariableOverride,
  hasStorageAccess, hasNavigatorAccess and hasDangerousDOMManipulation, when set, comes
  with a detected violation of a rule of that flag. Nothing is required of
  hasNetworkAPI, hasDynamicURLConstruction and suspiciousVariableNames.
\<close>

theorem flags_backed_by_violations:
  assumes "r = analyzeTree hostname ast perms"
  shows "(hasEval r \<longrightarrow> (\<exists>v\<in>set (detectedViolations r). rule v = ''no-eval''))
    \<and> (hasDynamicCodeExecution r
         \<longrightarrow> (\<exists>v\<in>set (detectedViolations r). rule v = ''no-string-timeout''))
    \<and> (hasNetworkWithoutPermission r
         \<longrightarrow> (\<exists>v\<in>set (detectedViolations r). rule v = ''no-network-without-permission''))
    \<and> (hasObfuscatedCode r
         \<longrightarrow> (\<exists>v\<in>set (detectedViolations r). rule v = ''no-obfuscation''))
    \<and> (hasGlobalVariableOverride r
         \<longrightarrow> (\<exists>v\<in>set (detectedViolations r).
                rule v \<in> {''no-global-override'', ''no-prototype-pollution''}))
    \<and> (hasStorageAccess r
         \<longrightarrow> (\<exists>v\<in>set (detectedViolations r).
                rule v \<in> {''no-storage-access'', ''no-cookie-access'',
                          ''no-indexeddb-access'', ''no-storage-event''}))
    \<and> (hasNavigatorAccess r
         \<longrightarrow> (\<exists>v\<in>set (detectedViolations r). rule v = ''no-navigator-access''))
    \<and> (hasDangerousDOMManipulation r
         \<longrightarrow> (\<exists>v\<in>set (detectedViolations r). rule v = ''no-dangerous-dom''))"
  using analyzeTree_backed [of hostname ast perms]
  unfolding assms backed_def justified_def by simp

theorem flags_backed_by_violations_witness:
  "(hasEval (analyzeTree example_hostname eval_atob_storage None)
    \<and> (\<exists>v\<in>set (detectedViolations (analyzeTree example_hostname eval_atob_storage None)).
          rule v = ''no-eval''))
   \<and> (hasDynamicCodeExecution (analyzeTree example_hostname string_timeout None)
    \<and> (\<exists>v\<in>set (detectedViolations (analyzeTree example_hostname string_timeout None)).
          rule v = ''no-string-timeout''))
   \<and> (hasNetworkWithoutPermission (analyzeTree example_hostname fetch_dynamic None)
    \<and> (\<exists>v\<in>set (detectedViolations (analyzeTree example_hostname fetch_dynamic None)).
          rule v = ''no-network-without-permission''))
   \<and> (hasObfuscatedCode (analyzeTree example_hostname eval_atob_storage None)
    \<and> (\<exists>v\<in>set (detectedViolations (analyzeTree example_hostname eval_atob_storage None)).
          rule v = ''no-obfuscation''))
   \<and> (hasGlobalVariableOverride (analyzeTree example_hostname navigator_assignment None)
    \<and> (\<exists>v\<in>set (detectedViolations (analyzeTree example_hostname navigator_assignment None)).
          rule v \<in> {''no-global-override'', ''no-prototype-pollution''}))
   \<and> (hasStorageAccess (analyzeTree example_hostname eval_atob_storage None)
    \<and> (\<exists>v\<in>set (detectedViolations (analyzeTree example_hostname eval_atob_storage None)).
          rule v \<in> {''no-storage-access'', ''no-cookie-access'',
                    ''no-indexeddb-access'', ''no-storage-event''}))
   \<and> (hasNavigatorAccess (analyzeTree example_hostname navigator_assignment None)
    \<and> (\<exists>v\<in>set (detectedViolations (analyzeTree example_hostname navigator_assignment None)).
          rule v = ''no-navigator-access''))
   \<and> (hasDangerousDOMManipulation (analyzeTree example_hostname innerHTML_assignment None)
    \<and> (\<exists>v\<in>set (detectedViolations (analyzeTree example_hostname innerHTML_assignment None)).
          rule v = ''no-dangerous-dom''))
   \<and> (hasNetworkAPI (analyzeTree example_hostname websocket_dynamic None)
    \<and> detectedViolations (analyzeTree example_hostname websocket_dynamic None) = [])"
proof -
  have dom: "hasDangerousDOMManipulation (analyzeTree example_hostname innerHTML_assignment None)"
    by (simp add: innerHTML_assignment_result initial_state_def)
  have net: "hasNetworkWithoutPermission (analyzeTree example_hostname fetch_dynamic None)"
    by (simp add: fetch_dynamic_result initial_state_def)
  have ws: "hasNetworkAPI (analyzeTree example_hostname websocket_dynamic None)"
    "detectedViolations (analyzeTree example_hostname websocket_dynamic None) = []"
    by (simp_all add: websocket_dynamic_result initial_state_def)
  show ?thesis
    using flags_backed_by_violations [OF refl, of example_hostname eval_atob_storage None]
      flags_backed_by_violations [OF refl, of example_hostname string_timeout None]
      flags_backed_by_violations [OF refl, of example_hostname fetch_dynamic None]
      flags_backed_by_violations [OF refl, of example_hostname navigator_assignment None]
      flags_backed_by_violations [OF refl, of example_hostname innerHTML_assignment None]
      eval_atob_storage_flags string_timeout_flags navigator_assignment_flags dom net ws
    by simp
qed

section \<open>Assignments to a prototype\<close>

text \<open>
  C10: when the walk of a tree reaches an assignment whose left side is a member
  expression on \<^verbatim>\<open>X.prototype\<close>, for any expression \<^verbatim>\<open>X\<close>, the analysis sets
  hasGlobalVariableOverride, holds a critical no-prototype-pollution violation, and its
  score is exactly 100.
\<close>

theorem prototype_assignment_scores_100:
  assumes "AssignmentExpression l left right \<in> set (visited ast)"
    and "left = MemberExpression l1 (MemberExpression l2 X (Identifier l3 ''prototype'') c2) Y c1"
    and "r = analyzeTree hostname ast perms"
  shows "hasGlobalVariableOverride r
         \<and> (\<exists>v\<in>set (detectedViolations r).
               rule v = ''no-prototype-pollution'' \<and> severity v = Critical)
         \<and> calculateSecurityScore r = 100"
proof -
  have "is_prototype_member left"
    by (simp add: assms(2))
  then have "polluted (walk NoLink ast initial_state)"
    using assms(1) by (rule walk_reaches_assignment(1))
  then have "polluted r"
    unfolding assms(3) by (rule analyzeTree_polluted)
  then show ?thesis
    by (simp add: polluted_def override_scores_100)
qed

theorem prototype_assignment_scores_100_witness:
  "prototype_assignment \<in> set (visited (program_of [prototype_assignment]))
   \<and> hasGlobalVariableOverride (analyzeTree example_hostname (program_of [prototype_assignment]) None)
   \<and> map rule (detectedViolations
                  (analyzeTree example_hostname (program_of [prototype_assignment]) None))
       = [''no-prototype-pollution'']
   \<and> calculateSecurityScore
        (analyzeTree example_hostname (program_of [prototype_assignment]) None) = 100"
proof -
  have reached: "prototype_assignment \<in> set (visited (program_of [prototype_assignment]))"
    by (simp add: program_of_def prototype_assignment_def)
  have rules: "map rule (detectedViolations
                 (analyzeTree example_hostname (program_of [prototype_assignment]) None))
               = [''no-prototype-pollution'']"
    by (simp add: prototype_assignment_result initial_state_def)
  show ?thesis
    using prototype_assignment_scores_100
      [OF reached [unfolded prototype_assignment_def] refl refl,
       of example_hostname None]
      reached rules
    by (simp add: prototype_assignment_def)
qed

section \<open>Validity and the score\<close>

lemma respond_fields:
  "critical (violations (respond c s)) =
     filter (\<lambda>v. severity v = Critical) (adjustViolations c (detectedViolations s))"
  "valid (respond c s) = (critical (violations (respond c s)) = [])"
  "securityScore (respond c s) = calculateSecurityScore s"
  by (simp_all add: respond_def Let_def)

lemma no_adjusted_critical:
  "(filter (\<lambda>v. severity v = Critical) (adjustViolations c vs) = []) =
     (\<forall>v\<in>set vs. adjustViolationSeverity (rule v) (severity v) c \<noteq> Critical)"
  by (simp add: adjustViolations_def filter_empty_conv)

text \<open>
  C1: in every response, \<open>valid\<close> holds exactly when the critical bucket, the adjusted
  violations of severity critical, is empty, that is when no detected violation has an
  adjusted severity of critical; so it holds when the context adjusts every detected
  violation to warning. The score is computed from the signals before the adjustment,
  and can be 100 in a valid response.
\<close>

theorem valid_iff_no_adjusted_critical:
  assumes "validate parse hostname request = Inr response"
    and "context = (case fileContext request of
                      Some c \<Rightarrow> c
                    | None \<Rightarrow> determineFileContext (code request))"
  shows "\<exists>signals.
           analyzeCodeSecurity parse hostname (code request) (request_permissions request)
             = Inr signals
           \<and> critical (violations response) =
               filter (\<lambda>v. severity v = Critical)
                 (adjustViolations context (detectedViolations signals))
           \<and> (valid response \<longleftrightarrow> critical (violations response) = [])
           \<and> (valid response \<longleftrightarrow>
                (\<forall>v\<in>set (detectedViolations signals).
                   adjustViolationSeverity (rule v) (severity v) context \<noteq> Critical))
           \<and> ((\<forall>v\<in>set (detectedViolations signals).
                   adjustViolationSeverity (rule v) (severity v) context = Warning)
                \<longrightarrow> valid response)
           \<and> securityScore response = calculateSecurityScore signals"
proof -
  from assms obtain signals where
    analysis: "analyzeCodeSecurity parse hostname (code request) (request_permissions request)
                 = Inr signals"
    and response: "response = respond context signals"
    by (auto simp: validate_def Let_def split: sum.splits)
  have valid: "valid response \<longleftrightarrow>
                 (\<forall>v\<in>set (detectedViolations signals).
                    adjustViolationSeverity (rule v) (severity v) context \<noteq> Critical)"
    by (simp add: response respond_fields no_adjusted_critical)
  then have "(\<forall>v\<in>set (detectedViolations signals).
                adjustViolationSeverity (rule v) (severity v) context = Warning)
             \<longrightarrow> valid response"
    by simp
  with analysis valid show ?thesis
    by (simp add: response respond_fields)
qed

lemma innerHTML_response:
  "validate (\<lambda>_. Some innerHTML_assignment) example_hostname (innerHTML_request c) =
     Inr (respond c (analyzeTree example_hostname innerHTML_assignment None))"
  by (simp add: validate_def analyzeCodeSecurity_def innerHTML_request_def
        request_permissions_def)

lemma innerHTML_response_fields:
  "valid (respond shared_library_context
            (analyzeTree example_hostname innerHTML_assignment None))"
  "securityScore (respond shared_library_context
                    (analyzeTree example_hostname innerHTML_assignment None)) = 100"
  "\<not> valid (respond user_code_context
               (analyzeTree example_hostname innerHTML_assignment None))"
  by (simp_all add: respond_fields adjustViolations_def innerHTML_assignment_result
        initial_state_def adjustViolationSeverity_def shared_library_context_def
        user_code_context_def technicalViolations_def startsWith_def
        calculateSecurityScore_def)

theorem valid_iff_no_adjusted_critical_witness:
  "validate (\<lambda>_. Some innerHTML_assignment) example_hostname
     (innerHTML_request shared_library_context)
     = Inr (respond shared_library_context
              (analyzeTree example_hostname innerHTML_assignment None))
   \<and> valid (respond shared_library_context
              (analyzeTree example_hostname innerHTML_assignment None))
   \<and> critical (violations (respond shared_library_context
                  (analyzeTree example_hostname innerHTML_assignment None))) = []
   \<and> securityScore (respond shared_library_context
                      (analyzeTree example_hostname innerHTML_assignment None)) = 100
   \<and> \<not> valid (respond user_code_context
                 (analyzeTree example_hostname innerHTML_assignment None))"
  using valid_iff_no_adjusted_critical
    [OF innerHTML_response [of shared_library_context],
     of shared_library_context]
    innerHTML_response [of shared_library_context] innerHTML_response_fields
  by (auto simp: innerHTML_request_def)

end
